theory Spec2Isabelle
  imports Complex_Main "HOL-Library.AList"
begin

section \<open>JavaScript values\<close>

text \<open>
  The two programs of the repository (\<^verbatim>\<open>src/index.js\<close>, the scheduled loop, and
  \<^verbatim>\<open>src/unnamed/part_002\<close>, the HTTP service) exchange untyped data with axios, with
  the Solana client and with Express. Such data is a \<open>jsval\<close>. Numbers are
  rationals, as every double is one. Whether a number is zero and how two amounts
  compare are the same for the doubles of the program. The product of an amount and
  \<^verbatim>\<open>LAMPORTS_PER_SOL\<close> is the product of two doubles, which is rounded: it is a
  parameter of the model (\<open>js_times\<close> below), and is the exact product for the amounts 5
  and 2 that the programs pass. A balance in SOL and the success rate are computed
  exactly where the program has them rounded to doubles, and the digits that
  \<^verbatim>\<open>Number.prototype.toFixed\<close> makes of them are left open: \<open>toFixed\<close> is a
  parameter too. Counters stay far below \<open>2^53\<close>, where \<^verbatim>\<open>++\<close> is exact, and are natural
  numbers.
\<close>

datatype jsval =
    JUndefined
  | JNull
  | JBool bool
  | JNum rat
  | JStr string
  | JArr "jsval list"
  | JObj "(string \<times> jsval) list"

text \<open>What \<^verbatim>\<open>if (v)\<close>, \<^verbatim>\<open>v && w\<close> and \<^verbatim>\<open>v ? a : b\<close> test.\<close>

fun truthy :: "jsval \<Rightarrow> bool" where
  "truthy JUndefined = False"
| "truthy JNull = False"
| "truthy (JBool b) = b"
| "truthy (JNum x) = (x \<noteq> 0)"
| "truthy (JStr s) = (s \<noteq> [])"
| "truthy (JArr xs) = True"
| "truthy (JObj kvs) = True"

text \<open>
  Property access \<^verbatim>\<open>v.k\<close> for the keys the programs read (none of them is a built-in
  property of strings or arrays): a missing property reads as \<^verbatim>\<open>undefined\<close>. The
  programs never read a property of \<^verbatim>\<open>null\<close> or \<^verbatim>\<open>undefined\<close> unguarded.
\<close>

fun js_prop :: "jsval \<Rightarrow> string \<Rightarrow> jsval" where
  "js_prop (JObj kvs) k = (case map_of kvs k of Some v \<Rightarrow> v | None \<Rightarrow> JUndefined)"
| "js_prop v k = JUndefined"

text \<open>
  A template literal \<^verbatim>\<open>`${v}`\<close> converts \<^verbatim>\<open>v\<close> to a string. For a value parsed from JSON
  the conversion fails in one case only: an object with a property of its own named
  \<^verbatim>\<open>toString\<close> (JSON cannot make it a function, and the inherited \<^verbatim>\<open>valueOf\<close> returns
  the object), by itself or as an element of an array, whose conversion joins those of
  its elements. Every other object reads \<^verbatim>\<open>[object Object]\<close>.
\<close>

fun stringifiable :: "jsval \<Rightarrow> bool" where
  "stringifiable (JObj kvs) = (map_of kvs ''toString'' = None)"
| "stringifiable (JArr xs) = list_all stringifiable xs"
| "stringifiable v = True"

section \<open>Effects\<close>

text \<open>
  A rejected promise or a thrown exception carries an \<^verbatim>\<open>Error\<close> object: its
  \<^verbatim>\<open>message\<close>, and for an axios error that has one, the \<^verbatim>\<open>response\<close> (status and body).
\<close>

record axios_response =
  status :: nat
  data :: jsval

datatype js_error = JsError (error_message: string) (error_response: "axios_response option")

type_synonym address = string
type_synonym pubkey = string

datatype level = Info | Error

text \<open>Calls into the libraries (axios, \<^verbatim>\<open>@solana/web3.js\<close>), with their arguments.\<close>

datatype lib_call =
    New_PublicKey address
  | Conn_getBalance pubkey
  | Axios_post string jsval jsval
  | Conn_requestAirdrop pubkey rat
  | Conn_confirmTransaction string string

text \<open>The three clients of the orchestrator, with the arguments of a call.\<close>

datatype client_call =
    GetBalance address
  | RequestDevnetSol address rat
  | RequestAirdrop address rat

text \<open>
  What a run does, in order: a log line (the template of the source, without its emoji
  and line breaks, and the values interpolated), a call into a library, a call of a client together with
  everything that client did, and the registration of the deferred balance re-check
  (\<^verbatim>\<open>setTimeout(..., 5000)\<close>, which closes over the balance read before the request).
\<close>

datatype event =
    Log level string "jsval list"
  | Lib lib_call
  | Call client_call "event list"
  | SetTimeout nat "rat option"

text \<open>
  A computation over a mutable state \<open>'s\<close>: it returns or raises, leaves a state (a
  mutation made before a raise stays), and leaves a trace.
\<close>

type_synonym ('s, 'a) prog = "'s \<Rightarrow> (js_error + 'a) \<times> 's \<times> event list"

definition pure :: "'a \<Rightarrow> ('s, 'a) prog" where
  "pure x = (\<lambda>s. (Inr x, s, []))"

definition raise :: "js_error \<Rightarrow> ('s, 'a) prog" where
  "raise e = (\<lambda>s. (Inl e, s, []))"

definition andThen :: "('s, 'a) prog \<Rightarrow> ('a \<Rightarrow> ('s, 'b) prog) \<Rightarrow> ('s, 'b) prog" where
  "andThen m f = (\<lambda>s.
     case m s of
       (Inl e, s1, tr) \<Rightarrow> (Inl e, s1, tr)
     | (Inr x, s1, tr) \<Rightarrow> (case f x s1 of (r, s2, tr2) \<Rightarrow> (r, s2, tr @ tr2)))"

definition tryCatch :: "('s, 'a) prog \<Rightarrow> (js_error \<Rightarrow> ('s, 'a) prog) \<Rightarrow> ('s, 'a) prog" where
  "tryCatch m h = (\<lambda>s.
     case m s of
       (Inl e, s1, tr) \<Rightarrow> (case h e s1 of (r, s2, tr2) \<Rightarrow> (r, s2, tr @ tr2))
     | (Inr x, s1, tr) \<Rightarrow> (Inr x, s1, tr))"

definition getState :: "('s, 's) prog" where
  "getState = (\<lambda>s. (Inr s, s, []))"

definition modify :: "('s \<Rightarrow> 's) \<Rightarrow> ('s, unit) prog" where
  "modify f = (\<lambda>s. (Inr (), f s, []))"

definition emit :: "event \<Rightarrow> ('s, unit) prog" where
  "emit ev = (\<lambda>s. (Inr (), s, [ev]))"

definition logger_info :: "string \<Rightarrow> jsval list \<Rightarrow> ('s, unit) prog" where
  "logger_info template args = emit (Log Info template args)"

definition logger_error :: "string \<Rightarrow> jsval list \<Rightarrow> ('s, unit) prog" where
  "logger_error template args = emit (Log Error template args)"

text \<open>
  The conversion of a value inside a template literal: where it fails, Node raises a
  TypeError. (The other values that the programs interpolate are numbers and strings.)
\<close>

definition interpolate :: "jsval \<Rightarrow> ('s, unit) prog" where
  "interpolate v =
     (if stringifiable v then pure ()
      else raise (JsError ''Cannot convert object to primitive value'' None))"

text \<open>A library call: it is recorded, and returns or raises as the library decides.\<close>

definition lib :: "lib_call \<Rightarrow> js_error + 'a \<Rightarrow> ('s, 'a) prog" where
  "lib c r = (\<lambda>s. (r, s, [Lib c]))"

text \<open>
  A client has no access to the state of its caller: it is its result and its trace. A
  call of a client is recorded with that trace.
\<close>

type_synonym 'a io = "(js_error + 'a) \<times> event list"

definition call :: "client_call \<Rightarrow> 'a io \<Rightarrow> ('s, 'a) prog" where
  "call c m = (\<lambda>s. (fst m, s, [Call c (snd m)]))"

definition run_io :: "(unit, 'a) prog \<Rightarrow> 'a io" where
  "run_io m = (case m () of (r, u, tr) \<Rightarrow> (r, tr))"

section \<open>Configuration\<close>

definition TARGET_ADDRESS :: address where
  "TARGET_ADDRESS = ''2gAwqZmY7nRi9XCNQs3CjfSzDiVe5npwK3yS7ijo3E8h''"

definition FAUCET_URL :: string where
  "FAUCET_URL = ''https://faucet.solana.com/api/airdrop''"


definition SOL_AMOUNT :: rat where
  "SOL_AMOUNT = 5"

definition MAX_REQUESTS_PER_SESSION :: nat where
  "MAX_REQUESTS_PER_SESSION = 2"

definition INTERVAL_HOURS :: nat where
  "INTERVAL_HOURS = 8"

text \<open>
  \<^verbatim>\<open>LAMPORTS_PER_SOL\<close> is imported from \<^verbatim>\<open>@solana/web3.js\<close>, which is not part of the
  repository; the library exports the number of lamports in one SOL.
\<close>

definition LAMPORTS_PER_SOL :: rat where
  "LAMPORTS_PER_SOL = 1000000000"

section \<open>The libraries and the host\<close>

text \<open>
  How the outside world answers during one run: the \<^verbatim>\<open>PublicKey\<close> constructor (it
  throws on a malformed address), the RPC connection and the faucet's HTTP endpoint.
  A timeout of \<^verbatim>\<open>axios.post\<close> is one of its rejections.
\<close>

record env =
  newPublicKey :: "address \<Rightarrow> js_error + pubkey"
  conn_getBalance :: "pubkey \<Rightarrow> js_error + nat"
  axios_post :: "string \<Rightarrow> jsval \<Rightarrow> jsval \<Rightarrow> js_error + axios_response"
  conn_requestAirdrop :: "pubkey \<Rightarrow> rat \<Rightarrow> js_error + string"
  conn_confirmTransaction :: "string \<Rightarrow> string \<Rightarrow> js_error + unit"

text \<open>
  Built-ins of the language: \<^verbatim>\<open>x.toFixed(d)\<close> as \<open>toFixed h d x\<close>, the product
  \<^verbatim>\<open>x * y\<close> of two doubles as \<open>js_times h x y\<close>, and the clock at the places that read it
  (\<^verbatim>\<open>new Date().toISOString()\<close> when a request starts, when it succeeds and when a
  response is written; \<^verbatim>\<open>Date.now()\<close> in milliseconds).
\<close>

record host =
  toFixed :: "nat \<Rightarrow> rat \<Rightarrow> string"
  js_times :: "rat \<Rightarrow> rat \<Rightarrow> rat"
  time_request :: string
  time_success :: string
  time_response :: string
  date_now :: int

section \<open>The clients (identical in both programs)\<close>

text \<open>\<^verbatim>\<open>getBalance(address)\<close>: the balance in SOL, or \<^verbatim>\<open>null\<close> (\<open>None\<close>).\<close>

definition getBalance :: "env \<Rightarrow> address \<Rightarrow> ('s, rat option) prog" where
  "getBalance e address =
     tryCatch
       (andThen (lib (New_PublicKey address) (newPublicKey e address)) (\<lambda>publicKey.
        andThen (lib (Conn_getBalance publicKey) (conn_getBalance e publicKey)) (\<lambda>balance.
        pure (Some (of_nat balance / LAMPORTS_PER_SOL)))))
       (\<lambda>error.
        andThen (logger_error ''Error getting balance: ${error.message}''
                   [JStr (error_message error)]) (\<lambda>_.
        pure None))"

text \<open>What a client returns: \<^verbatim>\<open>{ success, signature }\<close> or \<^verbatim>\<open>{ success, error }\<close>.\<close>

record funding_result =
  success :: bool
  signature :: jsval
  error :: jsval

text \<open>
  \<^verbatim>\<open>requestDevnetSol(address, amount)\<close>: one POST to the faucet. (Every caller passes the
  amount, so the default of the parameter is never used.) axios rejects a response
  whose status is not 2xx, with the response in \<^verbatim>\<open>error.response\<close>. The line logged on
  success interpolates the signature inside the \<^verbatim>\<open>try\<close>.
\<close>

definition requestDevnetSol ::
  "host \<Rightarrow> env \<Rightarrow> address \<Rightarrow> rat \<Rightarrow> ('s, funding_result) prog" where
  "requestDevnetSol h e address amount =
     tryCatch
       (andThen (logger_info ''Requesting ${amount} SOL for address: ${address}''
                   [JNum amount, JStr address]) (\<lambda>_.
        let body = JObj [(''address'', JStr address),
                         (''amount'', JNum (js_times h amount LAMPORTS_PER_SOL))];
            config = JObj [(''headers'', JObj [(''Content-Type'', JStr ''application/json'')]),
                           (''timeout'', JNum 30000)]
        in
        andThen (lib (Axios_post FAUCET_URL body config) (axios_post e FAUCET_URL body config))
          (\<lambda>response.
        if truthy (data response) \<and> truthy (js_prop (data response) ''signature'') then
          andThen (interpolate (js_prop (data response) ''signature'')) (\<lambda>_.
          andThen (logger_info
                     ''Successfully requested ${amount} SOL. Transaction: ${response.data.signature}''
                     [JNum amount, js_prop (data response) ''signature'']) (\<lambda>_.
          pure \<lparr>success = True, signature = js_prop (data response) ''signature'',
                error = JUndefined\<rparr>))
        else
          andThen (logger_error ''Faucet request failed: ${JSON.stringify(response.data)}''
                     [data response]) (\<lambda>_.
          pure \<lparr>success = False, signature = JUndefined,
                error = JStr ''No signature returned''\<rparr>))))
       (\<lambda>error.
        andThen
          (case error_response error of
             Some response \<Rightarrow>
               logger_error
                 ''Faucet request failed: ${error.response.status} - ${JSON.stringify(error.response.data)}''
                 [JNum (of_nat (status response)), data response]
           | None \<Rightarrow>
               logger_error ''Network error during faucet request: ${error.message}''
                 [JStr (error_message error)]) (\<lambda>_.
        pure \<lparr>success = False, signature = JUndefined,
              error = JStr (error_message error)\<rparr>))"

text \<open>\<^verbatim>\<open>requestAirdrop(address, amount)\<close>: the RPC airdrop, then the wait for confirmation.\<close>

definition requestAirdrop ::
  "host \<Rightarrow> env \<Rightarrow> address \<Rightarrow> rat \<Rightarrow> ('s, funding_result) prog" where
  "requestAirdrop h e address amount =
     tryCatch
       (andThen (logger_info ''Requesting ${amount} SOL airdrop for address: ${address}''
                   [JNum amount, JStr address]) (\<lambda>_.
        andThen (lib (New_PublicKey address) (newPublicKey e address)) (\<lambda>publicKey.
        andThen (lib (Conn_requestAirdrop publicKey (js_times h amount LAMPORTS_PER_SOL))
                   (conn_requestAirdrop e publicKey (js_times h amount LAMPORTS_PER_SOL))) (\<lambda>sig.
        andThen (lib (Conn_confirmTransaction sig ''confirmed'')
                   (conn_confirmTransaction e sig ''confirmed'')) (\<lambda>_.
        andThen (logger_info
                   ''Successfully received ${amount} SOL airdrop. Transaction: ${signature}''
                   [JNum amount, JStr sig]) (\<lambda>_.
        pure \<lparr>success = True, signature = JStr sig, error = JUndefined\<rparr>))))))
       (\<lambda>error.
        andThen (logger_error ''Airdrop request failed: ${error.message}''
                   [JStr (error_message error)]) (\<lambda>_.
        pure \<lparr>success = False, signature = JUndefined,
              error = JStr (error_message error)\<rparr>))"

text \<open>
  The orchestrator calls its three clients by name. To speak of every behaviour of the
  clients, it is written over a record of them; \<open>clients_of\<close> are the clients of the
  source, run against the libraries.
\<close>

record clients =
  c_getBalance :: "address \<Rightarrow> rat option io"
  c_requestDevnetSol :: "address \<Rightarrow> rat \<Rightarrow> funding_result io"
  c_requestAirdrop :: "address \<Rightarrow> rat \<Rightarrow> funding_result io"

definition clients_of :: "host \<Rightarrow> env \<Rightarrow> clients" where
  "clients_of h e =
     \<lparr>c_getBalance = (\<lambda>address. run_io (getBalance e address)),
      c_requestDevnetSol = (\<lambda>address amount. run_io (requestDevnetSol h e address amount)),
      c_requestAirdrop = (\<lambda>address amount. run_io (requestAirdrop h e address amount))\<rparr>"

section \<open>The scheduled loop (\<^verbatim>\<open>src/index.js\<close>)\<close>

text \<open>The module-level \<^verbatim>\<open>let requestCount = 0\<close> is the whole mutable state of this program.\<close>

record session =
  requestCount :: nat

definition initial_session :: session where
  "initial_session = \<lparr>requestCount = 0\<rparr>"

text \<open>
  \<^verbatim>\<open>requestSol()\<close> of \<^verbatim>\<open>src/index.js\<close>. Both of its exits return \<^verbatim>\<open>undefined\<close>. It has
  no \<^verbatim>\<open>try\<close>: whatever a client raised would leave it.
\<close>

definition requestSol_index :: "host \<Rightarrow> clients \<Rightarrow> (session, unit) prog" where
  "requestSol_index h c =
     andThen getState (\<lambda>s.
     if requestCount s \<ge> MAX_REQUESTS_PER_SESSION then
       logger_info
         ''Maximum requests (${MAX_REQUESTS_PER_SESSION}) reached for this session. Waiting for next cycle.''
         [JNum (of_nat MAX_REQUESTS_PER_SESSION)]
     else
       andThen (modify (\<lambda>s. s\<lparr>requestCount := requestCount s + 1\<rparr>)) (\<lambda>_.
       andThen getState (\<lambda>s.
       andThen (logger_info ''Starting request #${requestCount} of ${MAX_REQUESTS_PER_SESSION}''
                  [JNum (of_nat (requestCount s)), JNum (of_nat MAX_REQUESTS_PER_SESSION)]) (\<lambda>_.
       andThen (call (GetBalance TARGET_ADDRESS) (c_getBalance c TARGET_ADDRESS))
         (\<lambda>currentBalance.
       andThen (case currentBalance of
                  Some b \<Rightarrow> logger_info ''Current balance: ${currentBalance.toFixed(4)} SOL''
                              [JStr (toFixed h 4 b)]
                | None \<Rightarrow> pure ()) (\<lambda>_.
       andThen (call (RequestDevnetSol TARGET_ADDRESS SOL_AMOUNT)
                  (c_requestDevnetSol c TARGET_ADDRESS SOL_AMOUNT)) (\<lambda>result.
       andThen (if \<not> success result then
                  andThen (logger_info ''Faucet API failed, trying direct airdrop method...'' [])
                    (\<lambda>_.
                  call (RequestAirdrop TARGET_ADDRESS (min SOL_AMOUNT 2))
                    (c_requestAirdrop c TARGET_ADDRESS (min SOL_AMOUNT 2)))
                else pure result) (\<lambda>result.
       andThen (if success result then emit (SetTimeout 5000 currentBalance) else pure ())
         (\<lambda>_.
       andThen getState (\<lambda>s.
       logger_info ''Request #${requestCount} completed. Next request in ${INTERVAL_HOURS} hours.''
         [JNum (of_nat (requestCount s)), JNum (of_nat INTERVAL_HOURS)]))))))))))"

section \<open>The HTTP service (\<^verbatim>\<open>src/unnamed/part_002\<close>)\<close>

text \<open>The module-level \<^verbatim>\<open>stats\<close> object; \<^verbatim>\<open>uptime\<close> holds \<^verbatim>\<open>Date.now()\<close> at load.\<close>

record stats =
  totalRequests :: nat
  successfulRequests :: nat
  failedRequests :: nat
  lastRequestTime :: "string option"
  lastSuccessTime :: "string option"
  uptime :: int

definition initial_stats :: "int \<Rightarrow> stats" where
  "initial_stats t =
     \<lparr>totalRequests = 0, successfulRequests = 0, failedRequests = 0,
      lastRequestTime = None, lastSuccessTime = None, uptime = t\<rparr>"

text \<open>
  What \<^verbatim>\<open>requestSol()\<close> returns. Its three \<^verbatim>\<open>return\<close> statements build objects with
  different properties; a property that an object lacks reads as \<open>JUndefined\<close>.
\<close>

record outcome = funding_result +
  message :: string
  currentBalance :: jsval
  requestedAmount :: jsval

definition balance_val :: "rat option \<Rightarrow> jsval" where
  "balance_val b = (case b of Some x \<Rightarrow> JNum x | None \<Rightarrow> JNull)"

text \<open>\<^verbatim>\<open>requestSol()\<close> of the service.\<close>

definition requestSol :: "host \<Rightarrow> clients \<Rightarrow> (stats, outcome) prog" where
  "requestSol h c =
     andThen (modify (\<lambda>st. st\<lparr>totalRequests := totalRequests st + 1\<rparr>)) (\<lambda>_.
     andThen (modify (\<lambda>st. st\<lparr>lastRequestTime := Some (time_request h)\<rparr>)) (\<lambda>_.
     andThen getState (\<lambda>st.
     andThen (logger_info ''Starting SOL request #${stats.totalRequests}''
                [JNum (of_nat (totalRequests st))]) (\<lambda>_.
     tryCatch
       (andThen (call (GetBalance TARGET_ADDRESS) (c_getBalance c TARGET_ADDRESS))
          (\<lambda>currentBalance.
        andThen (case currentBalance of
                   Some b \<Rightarrow> logger_info ''Current balance: ${currentBalance.toFixed(4)} SOL''
                               [JStr (toFixed h 4 b)]
                 | None \<Rightarrow> pure ()) (\<lambda>_.
        andThen (call (RequestDevnetSol TARGET_ADDRESS SOL_AMOUNT)
                   (c_requestDevnetSol c TARGET_ADDRESS SOL_AMOUNT)) (\<lambda>result.
        andThen (if \<not> success result then
                   andThen (logger_info ''Faucet API failed, trying direct airdrop method...'' [])
                     (\<lambda>_.
                   call (RequestAirdrop TARGET_ADDRESS (min SOL_AMOUNT 2))
                     (c_requestAirdrop c TARGET_ADDRESS (min SOL_AMOUNT 2)))
                 else pure result) (\<lambda>result.
        if success result then
          andThen (modify (\<lambda>st. st\<lparr>successfulRequests := successfulRequests st + 1\<rparr>)) (\<lambda>_.
          andThen (modify (\<lambda>st. st\<lparr>lastSuccessTime := Some (time_success h)\<rparr>)) (\<lambda>_.
          andThen (emit (SetTimeout 5000 currentBalance)) (\<lambda>_.
          pure \<lparr>success = True, signature = signature result, error = JUndefined,
                message = ''SOL request completed successfully'',
                currentBalance = balance_val currentBalance,
                requestedAmount =
                  JNum (if truthy (signature result) then SOL_AMOUNT else min SOL_AMOUNT 2)\<rparr>)))
        else
          andThen (modify (\<lambda>st. st\<lparr>failedRequests := failedRequests st + 1\<rparr>)) (\<lambda>_.
          pure \<lparr>success = False, signature = JUndefined, error = error result,
                message = ''SOL request failed'',
                currentBalance = balance_val currentBalance,
                requestedAmount = JUndefined\<rparr>))))))
       (\<lambda>err.
        andThen (modify (\<lambda>st. st\<lparr>failedRequests := failedRequests st + 1\<rparr>)) (\<lambda>_.
        andThen (logger_error ''Request failed with error: ${error.message}''
                   [JStr (error_message err)]) (\<lambda>_.
        pure \<lparr>success = False, signature = JUndefined, error = JStr (error_message err),
              message = ''SOL request failed with error'',
              currentBalance = JUndefined, requestedAmount = JUndefined\<rparr>)))))))"

section \<open>Requests that overlap\<close>

text \<open>
  Node runs one piece of code at a time: an \<^verbatim>\<open>async\<close> function is not interrupted
  between two \<^verbatim>\<open>await\<close>s, and while it waits at an \<^verbatim>\<open>await\<close> other code runs.
  \<^verbatim>\<open>POST /request\<close> calls \<^verbatim>\<open>requestSol\<close> and takes no lock, so a second request can
  start while the first waits for a client. \<^verbatim>\<open>requestSol\<close> waits at three places; a call
  that has started and not returned is \<open>pending\<close> at one of them, holding the balance
  once it is read.
\<close>

datatype pending =
    Pending_getBalance
  | Pending_requestDevnetSol "rat option"
  | Pending_requestAirdrop "rat option"

text \<open>From the entry of \<^verbatim>\<open>requestSol\<close> to its first \<^verbatim>\<open>await\<close>.\<close>

definition requestSol_begin :: "host \<Rightarrow> (stats, unit) prog" where
  "requestSol_begin h =
     andThen (modify (\<lambda>st. st\<lparr>totalRequests := totalRequests st + 1\<rparr>)) (\<lambda>_.
     andThen (modify (\<lambda>st. st\<lparr>lastRequestTime := Some (time_request h)\<rparr>)) (\<lambda>_.
     andThen getState (\<lambda>st.
     logger_info ''Starting SOL request #${stats.totalRequests}''
       [JNum (of_nat (totalRequests st))])))"

text \<open>The \<^verbatim>\<open>catch\<close> of \<^verbatim>\<open>requestSol\<close>, and its last statement, the \<^verbatim>\<open>if (result.success)\<close>.\<close>

definition requestSol_catch :: "js_error \<Rightarrow> (stats, pending + outcome) prog" where
  "requestSol_catch err =
     andThen (modify (\<lambda>st. st\<lparr>failedRequests := failedRequests st + 1\<rparr>)) (\<lambda>_.
     andThen (logger_error ''Request failed with error: ${error.message}''
                [JStr (error_message err)]) (\<lambda>_.
     pure (Inr \<lparr>success = False, signature = JUndefined, error = JStr (error_message err),
                 message = ''SOL request failed with error'',
                 currentBalance = JUndefined, requestedAmount = JUndefined\<rparr>)))"

definition requestSol_finish ::
  "host \<Rightarrow> rat option \<Rightarrow> funding_result \<Rightarrow> (stats, pending + outcome) prog" where
  "requestSol_finish h balance result =
     (if success result then
        andThen (modify (\<lambda>st. st\<lparr>successfulRequests := successfulRequests st + 1\<rparr>)) (\<lambda>_.
        andThen (modify (\<lambda>st. st\<lparr>lastSuccessTime := Some (time_success h)\<rparr>)) (\<lambda>_.
        andThen (emit (SetTimeout 5000 balance)) (\<lambda>_.
        pure (Inr \<lparr>success = True, signature = signature result, error = JUndefined,
                    message = ''SOL request completed successfully'',
                    currentBalance = balance_val balance,
                    requestedAmount =
                      JNum (if truthy (signature result) then SOL_AMOUNT
                            else min SOL_AMOUNT 2)\<rparr>))))
      else
        andThen (modify (\<lambda>st. st\<lparr>failedRequests := failedRequests st + 1\<rparr>)) (\<lambda>_.
        pure (Inr \<lparr>success = False, signature = JUndefined, error = error result,
                    message = ''SOL request failed'',
                    currentBalance = balance_val balance,
                    requestedAmount = JUndefined\<rparr>)))"

text \<open>
  From one \<^verbatim>\<open>await\<close> of \<^verbatim>\<open>requestSol\<close>, when the client it waits for has answered, to
  the next \<^verbatim>\<open>await\<close> (\<open>Inl\<close>, with the place) or to the \<^verbatim>\<open>return\<close> (\<open>Inr\<close>, with the
  outcome). A call of a client is recorded when it has answered.
\<close>

fun requestSol_resume :: "host \<Rightarrow> clients \<Rightarrow> pending \<Rightarrow> (stats, pending + outcome) prog" where
  "requestSol_resume h c Pending_getBalance =
     tryCatch
       (andThen (call (GetBalance TARGET_ADDRESS) (c_getBalance c TARGET_ADDRESS))
          (\<lambda>currentBalance.
        andThen (case currentBalance of
                   Some b \<Rightarrow> logger_info ''Current balance: ${currentBalance.toFixed(4)} SOL''
                               [JStr (toFixed h 4 b)]
                 | None \<Rightarrow> pure ()) (\<lambda>_.
        pure (Inl (Pending_requestDevnetSol currentBalance)))))
       requestSol_catch"
| "requestSol_resume h c (Pending_requestDevnetSol balance) =
     tryCatch
       (andThen (call (RequestDevnetSol TARGET_ADDRESS SOL_AMOUNT)
                   (c_requestDevnetSol c TARGET_ADDRESS SOL_AMOUNT)) (\<lambda>result.
        if \<not> success result then
          andThen (logger_info ''Faucet API failed, trying direct airdrop method...'' []) (\<lambda>_.
          pure (Inl (Pending_requestAirdrop balance)))
        else requestSol_finish h balance result))
       requestSol_catch"
| "requestSol_resume h c (Pending_requestAirdrop balance) =
     tryCatch
       (andThen (call (RequestAirdrop TARGET_ADDRESS (min SOL_AMOUNT 2))
                   (c_requestAirdrop c TARGET_ADDRESS (min SOL_AMOUNT 2))) (\<lambda>result.
        requestSol_finish h balance result))
       requestSol_catch"

text \<open>
  The service while requests come and go: the \<^verbatim>\<open>stats\<close> object, the calls of
  \<^verbatim>\<open>requestSol\<close> that have started and not returned (each with its host, the clients
  as they answer that call, and the place where it waits), what the calls that have
  returned gave (an outcome, or the error that left the call), and the trace.
\<close>

record service =
  service_stats :: stats
  in_flight :: "(host \<times> clients \<times> pending) list"
  completed :: "(js_error + outcome) list"
  history :: "event list"

definition initial_service :: "int \<Rightarrow> service" where
  "initial_service t =
     \<lparr>service_stats = initial_stats t, in_flight = [], completed = [], history = []\<rparr>"

text \<open>A call of \<^verbatim>\<open>requestSol\<close> starts and runs to its first \<^verbatim>\<open>await\<close>.\<close>

definition arrive :: "host \<Rightarrow> clients \<Rightarrow> service \<Rightarrow> service" where
  "arrive h c sv =
     (case requestSol_begin h (service_stats sv) of
        (Inr u, st, tr) \<Rightarrow>
          sv\<lparr>service_stats := st,
             in_flight := in_flight sv @ [(h, c, Pending_getBalance)],
             history := history sv @ tr\<rparr>
      | (Inl e, st, tr) \<Rightarrow>
          sv\<lparr>service_stats := st,
             completed := completed sv @ [Inl e],
             history := history sv @ tr\<rparr>)"

text \<open>
  The \<open>i\<close>-th call in flight goes on, to its next \<^verbatim>\<open>await\<close> or to its end; nothing
  happens when there is no such call.
\<close>

definition advance :: "nat \<Rightarrow> service \<Rightarrow> service" where
  "advance i sv =
     (if i < length (in_flight sv) then
        (case in_flight sv ! i of
           (h, c, p) \<Rightarrow>
             (case requestSol_resume h c p (service_stats sv) of
                (Inr (Inl p'), st, tr) \<Rightarrow>
                  sv\<lparr>service_stats := st,
                     in_flight := (in_flight sv)[i := (h, c, p')],
                     history := history sv @ tr\<rparr>
              | (Inr (Inr out), st, tr) \<Rightarrow>
                  sv\<lparr>service_stats := st,
                     in_flight := take i (in_flight sv) @ drop (Suc i) (in_flight sv),
                     completed := completed sv @ [Inr out],
                     history := history sv @ tr\<rparr>
              | (Inl e, st, tr) \<Rightarrow>
                  sv\<lparr>service_stats := st,
                     in_flight := take i (in_flight sv) @ drop (Suc i) (in_flight sv),
                     completed := completed sv @ [Inl e],
                     history := history sv @ tr\<rparr>))
      else sv)"

text \<open>What happens at the service, in order.\<close>

datatype action = Arrive host clients | Advance nat

fun run_service :: "action list \<Rightarrow> service \<Rightarrow> service" where
  "run_service [] sv = sv"
| "run_service (Arrive h c # rest) sv = run_service rest (arrive h c sv)"
| "run_service (Advance i # rest) sv = run_service rest (advance i sv)"

section \<open>The routes of the service\<close>

record reply =
  statusCode :: nat
  body :: jsval

text \<open>
  The expression \<^verbatim>\<open>b ? b.toFixed(4) : 'Unknown'\<close>, which the routes write four times.
  A truthy value that is not a number has no \<^verbatim>\<open>toFixed\<close>: the call raises a TypeError.
\<close>

definition balance_text :: "host \<Rightarrow> jsval \<Rightarrow> ('s, jsval) prog" where
  "balance_text h b =
     (if truthy b then
        (case b of
           JNum x \<Rightarrow> pure (JStr (toFixed h 4 x))
         | _ \<Rightarrow> raise (JsError ''toFixed is not a function'' None))
      else pure (JStr ''Unknown''))"

text \<open>The properties of \<^verbatim>\<open>stats\<close>, as \<^verbatim>\<open>...stats\<close> and \<^verbatim>\<open>statistics: stats\<close> copy them.\<close>

definition time_val :: "string option \<Rightarrow> jsval" where
  "time_val t = (case t of Some s \<Rightarrow> JStr s | None \<Rightarrow> JNull)"

definition stats_props :: "stats \<Rightarrow> (string \<times> jsval) list" where
  "stats_props st =
     [(''totalRequests'', JNum (of_nat (totalRequests st))),
      (''successfulRequests'', JNum (of_nat (successfulRequests st))),
      (''failedRequests'', JNum (of_nat (failedRequests st))),
      (''lastRequestTime'', time_val (lastRequestTime st)),
      (''lastSuccessTime'', time_val (lastSuccessTime st)),
      (''uptime'', JNum (of_int (uptime st)))]"

text \<open>
  The expression of \<^verbatim>\<open>successRate\<close>, the same in \<^verbatim>\<open>GET /\<close> and \<^verbatim>\<open>GET /stats\<close>.
\<close>

definition successRate :: "host \<Rightarrow> stats \<Rightarrow> jsval" where
  "successRate h st =
     (if totalRequests st > 0 then
        JStr (toFixed h 2
                ((of_nat (successfulRequests st) / of_nat (totalRequests st)) * 100) @ ''%'')
      else JStr ''0%'')"

text \<open>
  The object \<^verbatim>\<open>{ ...stats, uptime: ..., successRate: ... }\<close>: a later property with the
  name of an earlier one replaces its value, a new one is added at the end.
\<close>

definition statistics :: "host \<Rightarrow> stats \<Rightarrow> jsval" where
  "statistics h st =
     JObj (AList.update ''successRate'' (successRate h st)
            (AList.update ''uptime'' (JNum (of_int ((date_now h - uptime st) div 1000)))
              (stats_props st)))"

text \<open>\<^verbatim>\<open>GET /\<close>\<close>

definition get_root :: "host \<Rightarrow> clients \<Rightarrow> (stats, reply) prog" where
  "get_root h c =
     tryCatch
       (andThen (call (GetBalance TARGET_ADDRESS) (c_getBalance c TARGET_ADDRESS))
          (\<lambda>currentBalance.
        andThen (balance_text h (balance_val currentBalance)) (\<lambda>balanceText.
        andThen getState (\<lambda>st.
        pure \<lparr>statusCode = 200,
              body = JObj
                [(''status'', JStr ''running''),
                 (''program'', JStr ''Auto Devnet SOL Request Service''),
                 (''address'', JStr TARGET_ADDRESS),
                 (''solAmount'', JNum SOL_AMOUNT),
                 (''currentBalance'', balanceText),
                 (''statistics'', statistics h st),
                 (''endpoints'', JObj
                    [(''POST /request'', JStr ''Trigger SOL request''),
                     (''GET /health'', JStr ''Health check''),
                     (''GET /balance'', JStr ''Get current balance''),
                     (''GET /stats'', JStr ''Get detailed statistics'')])]\<rparr>))))
       (\<lambda>error.
        pure \<lparr>statusCode = 500,
              body = JObj [(''error'', JStr ''Failed to get status''),
                           (''message'', JStr (error_message error))]\<rparr>)"

text \<open>\<^verbatim>\<open>POST /request\<close>\<close>

definition post_request :: "host \<Rightarrow> clients \<Rightarrow> (stats, reply) prog" where
  "post_request h c =
     tryCatch
       (andThen (logger_info ''SOL request triggered via API'' []) (\<lambda>_.
        andThen (requestSol h c) (\<lambda>result.
        if success result then
          andThen (balance_text h (currentBalance result)) (\<lambda>balanceText.
          andThen getState (\<lambda>st.
          pure \<lparr>statusCode = 200,
                body = JObj
                  [(''success'', JBool True),
                   (''message'', JStr (message result)),
                   (''data'', JObj
                      [(''signature'', signature result),
                       (''requestedAmount'', requestedAmount result),
                       (''currentBalance'', balanceText),
                       (''timestamp'', JStr (time_response h))]),
                   (''statistics'', JObj (stats_props st))]\<rparr>))
        else
          andThen (balance_text h (currentBalance result)) (\<lambda>balanceText.
          andThen getState (\<lambda>st.
          pure \<lparr>statusCode = 400,
                body = JObj
                  [(''success'', JBool False),
                   (''message'', JStr (message result)),
                   (''error'', error result),
                   (''data'', JObj
                      [(''currentBalance'', balanceText),
                       (''timestamp'', JStr (time_response h))]),
                   (''statistics'', JObj (stats_props st))]\<rparr>)))))
       (\<lambda>error.
        andThen (logger_error ''API request failed: ${error.message}''
                   [JStr (error_message error)]) (\<lambda>_.
        pure \<lparr>statusCode = 500,
              body = JObj [(''success'', JBool False),
                           (''message'', JStr ''Internal server error''),
                           (''error'', JStr (error_message error)),
                           (''timestamp'', JStr (time_response h))]\<rparr>))"

text \<open>\<^verbatim>\<open>GET /balance\<close>\<close>

definition get_balance :: "host \<Rightarrow> clients \<Rightarrow> (stats, reply) prog" where
  "get_balance h c =
     tryCatch
       (andThen (call (GetBalance TARGET_ADDRESS) (c_getBalance c TARGET_ADDRESS)) (\<lambda>balance.
        andThen (balance_text h (balance_val balance)) (\<lambda>balanceText.
        pure \<lparr>statusCode = 200,
              body = JObj
                [(''address'', JStr TARGET_ADDRESS),
                 (''balance'', balanceText),
                 (''balanceSOL'', balance_val balance),
                 (''timestamp'', JStr (time_response h))]\<rparr>)))
       (\<lambda>error.
        pure \<lparr>statusCode = 500,
              body = JObj [(''error'', JStr ''Failed to get balance''),
                           (''message'', JStr (error_message error))]\<rparr>)"


section \<open>Reading a trace\<close>

text \<open>
  The amounts of the calls of the airdrop client, the calls of any client, and the
  library calls, each in order. They read the run itself, not what a client did inside.
\<close>

fun airdrop_calls :: "event list \<Rightarrow> rat list" where
  "airdrop_calls [] = []"
| "airdrop_calls (Call (RequestAirdrop a amount) tr # evs) = amount # airdrop_calls evs"
| "airdrop_calls (ev # evs) = airdrop_calls evs"

fun client_calls :: "event list \<Rightarrow> client_call list" where
  "client_calls [] = []"
| "client_calls (Call c tr # evs) = c # client_calls evs"
| "client_calls (ev # evs) = client_calls evs"

fun lib_calls :: "event list \<Rightarrow> lib_call list" where
  "lib_calls [] = []"
| "lib_calls (Lib c # evs) = c # lib_calls evs"
| "lib_calls (ev # evs) = lib_calls evs"

section \<open>The specification's notions\<close>

text \<open>
  A response body contains a transaction identifier: it is an object with a
  \<^verbatim>\<open>signature\<close> property that is not empty (not \<^verbatim>\<open>""\<close>, \<^verbatim>\<open>0\<close>, \<^verbatim>\<open>false\<close>, \<^verbatim>\<open>null\<close>
  or \<^verbatim>\<open>undefined\<close>).
\<close>

fun has_signature :: "jsval \<Rightarrow> bool" where
  "has_signature (JObj kvs) =
     (case map_of kvs ''signature'' of Some v \<Rightarrow> truthy v | None \<Rightarrow> False)"
| "has_signature v = False"


text \<open>
  A funding call succeeds: the balance read and the faucet client return, and the
  faucet client reports success, or it reports failure and the airdrop client returns
  and reports success.
\<close>

definition funding_succeeds :: "clients \<Rightarrow> bool" where
  "funding_succeeds c =
     (case fst (c_getBalance c TARGET_ADDRESS) of
        Inl e \<Rightarrow> False
      | Inr b \<Rightarrow>
          (case fst (c_requestDevnetSol c TARGET_ADDRESS SOL_AMOUNT) of
             Inl e \<Rightarrow> False
           | Inr r \<Rightarrow>
               (if success r then True
                else (case fst (c_requestAirdrop c TARGET_ADDRESS (min SOL_AMOUNT 2)) of
                        Inl e \<Rightarrow> False
                      | Inr r2 \<Rightarrow> success r2))))"

text \<open>
  The method a run used: the airdrop when the airdrop client was called, the faucet
  otherwise.
\<close>

datatype funding_method = Faucet | Airdrop

definition method_used :: "event list \<Rightarrow> funding_method" where
  "method_used tr = (if airdrop_calls tr = [] then Faucet else Airdrop)"

section \<open>Parts of a run, named for the proofs\<close>

text \<open>The statistics once a request has started, and the line logged for a known balance.\<close>

definition started :: "host \<Rightarrow> stats \<Rightarrow> stats" where
  "started h st =
     st\<lparr>totalRequests := totalRequests st + 1, lastRequestTime := Some (time_request h)\<rparr>"

definition balance_log :: "host \<Rightarrow> rat option \<Rightarrow> event list" where
  "balance_log h b =
     (case b of
        Some x \<Rightarrow> [Log Info ''Current balance: ${currentBalance.toFixed(4)} SOL''
                    [JStr (toFixed h 4 x)]]
      | None \<Rightarrow> [])"

text \<open>The outcome of the \<^verbatim>\<open>catch\<close> branch of \<^verbatim>\<open>requestSol\<close>.\<close>

definition caught :: "js_error \<Rightarrow> outcome" where
  "caught e =
     \<lparr>success = False, signature = JUndefined, error = JStr (error_message e),
      message = ''SOL request failed with error'',
      currentBalance = JUndefined, requestedAmount = JUndefined\<rparr>"

text \<open>What \<^verbatim>\<open>requestDevnetSol\<close> and \<^verbatim>\<open>requestAirdrop\<close> return from their \<^verbatim>\<open>catch\<close>.\<close>

definition failed_with :: "js_error \<Rightarrow> funding_result" where
  "failed_with e = \<lparr>success = False, signature = JUndefined, error = JStr (error_message e)\<rparr>"

text \<open>
  The requests that the statistics have counted as ended, and the statistics accounting
  for every request: the ended ones are the completed ones, and the total adds the
  ones in flight.
\<close>

definition counted :: "stats \<Rightarrow> nat" where
  "counted st = successfulRequests st + failedRequests st"

definition accounted :: "service \<Rightarrow> bool" where
  "accounted sv =
     (totalRequests (service_stats sv) = counted (service_stats sv) + length (in_flight sv) \<and>
      counted (service_stats sv) = length (completed sv))"

section \<open>Example worlds\<close>

text \<open>
  A host whose formatter is a stand-in (every theorem below holds for every formatter)
  and whose product is the exact one, as it is for the amounts 5 and 2 of the examples;
  and library behaviours for the scenarios of the specification.
\<close>

definition example_host :: host where
  "example_host =
     \<lparr>toFixed = (\<lambda>d x. ''(number)''),
      js_times = (\<lambda>x y. x * y),
      time_request = ''2025-01-01T00:00:00.000Z'',
      time_success = ''2025-01-01T00:00:02.000Z'',
      time_response = ''2025-01-01T00:00:03.000Z'',
      date_now = 1735689603000\<rparr>"

text \<open>The faucet answers with a transaction identifier; the account holds 1.5 SOL.\<close>

definition env_faucet_ok :: env where
  "env_faucet_ok =
     \<lparr>newPublicKey = (\<lambda>a. Inr a),
      conn_getBalance = (\<lambda>pk. Inr 1500000000),
      axios_post = (\<lambda>url b cfg. Inr \<lparr>status = 200, data = JObj [(''signature'', JStr ''5J7'')]\<rparr>),
      conn_requestAirdrop = (\<lambda>pk n. Inl (JsError ''airdrop not available'' None)),
      conn_confirmTransaction = (\<lambda>sg l. Inr ())\<rparr>"

text \<open>The faucet times out; the airdrop is confirmed.\<close>

definition env_airdrop_ok :: env where
  "env_airdrop_ok =
     \<lparr>newPublicKey = (\<lambda>a. Inr a),
      conn_getBalance = (\<lambda>pk. Inr 1500000000),
      axios_post = (\<lambda>url b cfg. Inl (JsError ''timeout of 30000ms exceeded'' None)),
      conn_requestAirdrop = (\<lambda>pk n. Inr ''5J7''),
      conn_confirmTransaction = (\<lambda>sg l. Inr ())\<rparr>"

text \<open>The faucet refuses with status 429; the airdrop is refused too.\<close>

definition env_both_fail :: env where
  "env_both_fail =
     \<lparr>newPublicKey = (\<lambda>a. Inr a),
      conn_getBalance = (\<lambda>pk. Inr 1500000000),
      axios_post = (\<lambda>url b cfg.
        Inl (JsError ''Request failed with status code 429''
               (Some \<lparr>status = 429, data = JObj [(''error'', JStr ''rate limited'')]\<rparr>))),
      conn_requestAirdrop = (\<lambda>pk n. Inl (JsError ''airdrop limit reached'' None)),
      conn_confirmTransaction = (\<lambda>sg l. Inr ())\<rparr>"

text \<open>The balance cannot be read; the faucet answers with a transaction identifier.\<close>

definition env_no_balance :: env where
  "env_no_balance =
     \<lparr>newPublicKey = (\<lambda>a. Inr a),
      conn_getBalance = (\<lambda>pk. Inl (JsError ''fetch failed'' None)),
      axios_post = (\<lambda>url b cfg. Inr \<lparr>status = 200, data = JObj [(''signature'', JStr ''5J7'')]\<rparr>),
      conn_requestAirdrop = (\<lambda>pk n. Inl (JsError ''airdrop not available'' None)),
      conn_confirmTransaction = (\<lambda>sg l. Inr ())\<rparr>"

text \<open>The account is empty; the faucet answers with a transaction identifier.\<close>

definition env_zero_balance :: env where
  "env_zero_balance =
     \<lparr>newPublicKey = (\<lambda>a. Inr a),
      conn_getBalance = (\<lambda>pk. Inr 0),
      axios_post = (\<lambda>url b cfg. Inr \<lparr>status = 200, data = JObj [(''signature'', JStr ''5J7'')]\<rparr>),
      conn_requestAirdrop = (\<lambda>pk n. Inl (JsError ''airdrop not available'' None)),
      conn_confirmTransaction = (\<lambda>sg l. Inr ())\<rparr>"

text \<open>The faucet answers with status 500, and the body of the answer holds a signature.\<close>

definition env_error_status :: env where
  "env_error_status =
     \<lparr>newPublicKey = (\<lambda>a. Inr a),
      conn_getBalance = (\<lambda>pk. Inr 1500000000),
      axios_post = (\<lambda>url b cfg.
        Inl (JsError ''Request failed with status code 500''
               (Some \<lparr>status = 500, data = JObj [(''signature'', JStr ''5J7'')]\<rparr>))),
      conn_requestAirdrop = (\<lambda>pk n. Inl (JsError ''airdrop not available'' None)),
      conn_confirmTransaction = (\<lambda>sg l. Inr ())\<rparr>"

text \<open>The faucet answers with status 200 and no signature.\<close>

definition env_no_signature :: env where
  "env_no_signature =
     \<lparr>newPublicKey = (\<lambda>a. Inr a),
      conn_getBalance = (\<lambda>pk. Inr 1500000000),
      axios_post = (\<lambda>url b cfg.
        Inr \<lparr>status = 200, data = JObj [(''message'', JStr ''queued'')]\<rparr>),
      conn_requestAirdrop = (\<lambda>pk n. Inl (JsError ''airdrop not available'' None)),
      conn_confirmTransaction = (\<lambda>sg l. Inr ())\<rparr>"

section \<open>How a run of the service unfolds\<close>

lemmas prog_defs = pure_def raise_def andThen_def tryCatch_def getState_def modify_def
  emit_def logger_info_def logger_error_def lib_def call_def

lemma airdrop_calls_append: "airdrop_calls (xs @ ys) = airdrop_calls xs @ airdrop_calls ys"
  by (induction xs rule: airdrop_calls.induct) simp_all

lemma airdrop_calls_balance_log: "airdrop_calls (balance_log h b) = []"
  by (simp add: balance_log_def split: option.splits)

lemma client_calls_append: "client_calls (xs @ ys) = client_calls xs @ client_calls ys"
  by (induction xs rule: client_calls.induct) simp_all

lemma client_calls_balance_log: "client_calls (balance_log h b) = []"
  by (simp add: balance_log_def split: option.splits)

lemma requestSol_balance_raises:
  assumes "fst (c_getBalance c TARGET_ADDRESS) = Inl e"
  shows "requestSol h c st =
    (Inr (caught e), (started h st)\<lparr>failedRequests := failedRequests st + 1\<rparr>,
     [Log Info ''Starting SOL request #${stats.totalRequests}''
        [JNum (of_nat (totalRequests st + 1))],
      Call (GetBalance TARGET_ADDRESS) (snd (c_getBalance c TARGET_ADDRESS)),
      Log Error ''Request failed with error: ${error.message}'' [JStr (error_message e)]])"
  using assms by (simp add: requestSol_def prog_defs caught_def started_def)

lemma requestSol_faucet_raises:
  assumes "fst (c_getBalance c TARGET_ADDRESS) = Inr b"
    and "fst (c_requestDevnetSol c TARGET_ADDRESS SOL_AMOUNT) = Inl e"
  shows "requestSol h c st =
    (Inr (caught e), (started h st)\<lparr>failedRequests := failedRequests st + 1\<rparr>,
     [Log Info ''Starting SOL request #${stats.totalRequests}''
        [JNum (of_nat (totalRequests st + 1))],
      Call (GetBalance TARGET_ADDRESS) (snd (c_getBalance c TARGET_ADDRESS))]
     @ balance_log h b @
     [Call (RequestDevnetSol TARGET_ADDRESS SOL_AMOUNT)
        (snd (c_requestDevnetSol c TARGET_ADDRESS SOL_AMOUNT)),
      Log Error ''Request failed with error: ${error.message}'' [JStr (error_message e)]])"
  using assms
  by (simp add: requestSol_def prog_defs caught_def started_def balance_log_def
      split: option.splits)

lemma requestSol_faucet_ok:
  assumes "fst (c_getBalance c TARGET_ADDRESS) = Inr b"
    and "fst (c_requestDevnetSol c TARGET_ADDRESS SOL_AMOUNT) = Inr r"
    and "success r"
  shows "requestSol h c st =
    (Inr \<lparr>success = True, signature = signature r, error = JUndefined,
          message = ''SOL request completed successfully'',
          currentBalance = balance_val b,
          requestedAmount =
            JNum (if truthy (signature r) then SOL_AMOUNT else min SOL_AMOUNT 2)\<rparr>,
     (started h st)\<lparr>successfulRequests := successfulRequests st + 1,
                     lastSuccessTime := Some (time_success h)\<rparr>,
     [Log Info ''Starting SOL request #${stats.totalRequests}''
        [JNum (of_nat (totalRequests st + 1))],
      Call (GetBalance TARGET_ADDRESS) (snd (c_getBalance c TARGET_ADDRESS))]
     @ balance_log h b @
     [Call (RequestDevnetSol TARGET_ADDRESS SOL_AMOUNT)
        (snd (c_requestDevnetSol c TARGET_ADDRESS SOL_AMOUNT)),
      SetTimeout 5000 b])"
  using assms
  by (simp add: requestSol_def prog_defs started_def balance_log_def split: option.splits)

lemma requestSol_airdrop_raises:
  assumes "fst (c_getBalance c TARGET_ADDRESS) = Inr b"
    and "fst (c_requestDevnetSol c TARGET_ADDRESS SOL_AMOUNT) = Inr r"
    and "\<not> success r"
    and "fst (c_requestAirdrop c TARGET_ADDRESS (min SOL_AMOUNT 2)) = Inl e"
  shows "requestSol h c st =
    (Inr (caught e), (started h st)\<lparr>failedRequests := failedRequests st + 1\<rparr>,
     [Log Info ''Starting SOL request #${stats.totalRequests}''
        [JNum (of_nat (totalRequests st + 1))],
      Call (GetBalance TARGET_ADDRESS) (snd (c_getBalance c TARGET_ADDRESS))]
     @ balance_log h b @
     [Call (RequestDevnetSol TARGET_ADDRESS SOL_AMOUNT)
        (snd (c_requestDevnetSol c TARGET_ADDRESS SOL_AMOUNT)),
      Log Info ''Faucet API failed, trying direct airdrop method...'' [],
      Call (RequestAirdrop TARGET_ADDRESS (min SOL_AMOUNT 2))
        (snd (c_requestAirdrop c TARGET_ADDRESS (min SOL_AMOUNT 2))),
      Log Error ''Request failed with error: ${error.message}'' [JStr (error_message e)]])"
  using assms
  by (simp add: requestSol_def prog_defs caught_def started_def balance_log_def
      split: option.splits)

lemma requestSol_airdrop_ok:
  assumes "fst (c_getBalance c TARGET_ADDRESS) = Inr b"
    and "fst (c_requestDevnetSol c TARGET_ADDRESS SOL_AMOUNT) = Inr r"
    and "\<not> success r"
    and "fst (c_requestAirdrop c TARGET_ADDRESS (min SOL_AMOUNT 2)) = Inr r2"
    and "success r2"
  shows "requestSol h c st =
    (Inr \<lparr>success = True, signature = signature r2, error = JUndefined,
          message = ''SOL request completed successfully'',
          currentBalance = balance_val b,
          requestedAmount =
            JNum (if truthy (signature r2) then SOL_AMOUNT else min SOL_AMOUNT 2)\<rparr>,
     (started h st)\<lparr>successfulRequests := successfulRequests st + 1,
                     lastSuccessTime := Some (time_success h)\<rparr>,
     [Log Info ''Starting SOL request #${stats.totalRequests}''
        [JNum (of_nat (totalRequests st + 1))],
      Call (GetBalance TARGET_ADDRESS) (snd (c_getBalance c TARGET_ADDRESS))]
     @ balance_log h b @
     [Call (RequestDevnetSol TARGET_ADDRESS SOL_AMOUNT)
        (snd (c_requestDevnetSol c TARGET_ADDRESS SOL_AMOUNT)),
      Log Info ''Faucet API failed, trying direct airdrop method...'' [],
      Call (RequestAirdrop TARGET_ADDRESS (min SOL_AMOUNT 2))
        (snd (c_requestAirdrop c TARGET_ADDRESS (min SOL_AMOUNT 2))),
      SetTimeout 5000 b])"
  using assms
  by (simp add: requestSol_def prog_defs started_def balance_log_def split: option.splits)

lemma requestSol_both_fail:
  assumes "fst (c_getBalance c TARGET_ADDRESS) = Inr b"
    and "fst (c_requestDevnetSol c TARGET_ADDRESS SOL_AMOUNT) = Inr r"
    and "\<not> success r"
    and "fst (c_requestAirdrop c TARGET_ADDRESS (min SOL_AMOUNT 2)) = Inr r2"
    and "\<not> success r2"
  shows "requestSol h c st =
    (Inr \<lparr>success = False, signature = JUndefined, error = error r2,
          message = ''SOL request failed'',
          currentBalance = balance_val b, requestedAmount = JUndefined\<rparr>,
     (started h st)\<lparr>failedRequests := failedRequests st + 1\<rparr>,
     [Log Info ''Starting SOL request #${stats.totalRequests}''
        [JNum (of_nat (totalRequests st + 1))],
      Call (GetBalance TARGET_ADDRESS) (snd (c_getBalance c TARGET_ADDRESS))]
     @ balance_log h b @
     [Call (RequestDevnetSol TARGET_ADDRESS SOL_AMOUNT)
        (snd (c_requestDevnetSol c TARGET_ADDRESS SOL_AMOUNT)),
      Log Info ''Faucet API failed, trying direct airdrop method...'' [],
      Call (RequestAirdrop TARGET_ADDRESS (min SOL_AMOUNT 2))
        (snd (c_requestAirdrop c TARGET_ADDRESS (min SOL_AMOUNT 2)))])"
  using assms
  by (simp add: requestSol_def prog_defs started_def balance_log_def split: option.splits)

text \<open>The six ways a run can go.\<close>

lemma run_cases [case_names balance_raises faucet_raises faucet_ok airdrop_raises
    airdrop_ok both_fail]:
  obtains
    e where "fst (c_getBalance c TARGET_ADDRESS) = Inl e"
  | b e where "fst (c_getBalance c TARGET_ADDRESS) = Inr b"
      and "fst (c_requestDevnetSol c TARGET_ADDRESS SOL_AMOUNT) = Inl e"
  | b r where "fst (c_getBalance c TARGET_ADDRESS) = Inr b"
      and "fst (c_requestDevnetSol c TARGET_ADDRESS SOL_AMOUNT) = Inr r" and "success r"
  | b r e where "fst (c_getBalance c TARGET_ADDRESS) = Inr b"
      and "fst (c_requestDevnetSol c TARGET_ADDRESS SOL_AMOUNT) = Inr r" and "\<not> success r"
      and "fst (c_requestAirdrop c TARGET_ADDRESS (min SOL_AMOUNT 2)) = Inl e"
  | b r r2 where "fst (c_getBalance c TARGET_ADDRESS) = Inr b"
      and "fst (c_requestDevnetSol c TARGET_ADDRESS SOL_AMOUNT) = Inr r" and "\<not> success r"
      and "fst (c_requestAirdrop c TARGET_ADDRESS (min SOL_AMOUNT 2)) = Inr r2" and "success r2"
  | b r r2 where "fst (c_getBalance c TARGET_ADDRESS) = Inr b"
      and "fst (c_requestDevnetSol c TARGET_ADDRESS SOL_AMOUNT) = Inr r" and "\<not> success r"
      and "fst (c_requestAirdrop c TARGET_ADDRESS (min SOL_AMOUNT 2)) = Inr r2"
      and "\<not> success r2"
proof (cases "fst (c_getBalance c TARGET_ADDRESS)")
  case (Inl e)
  then show ?thesis using that(1) by blast
next
  case b: (Inr b)
  show ?thesis
  proof (cases "fst (c_requestDevnetSol c TARGET_ADDRESS SOL_AMOUNT)")
    case (Inl e)
    with b show ?thesis using that(2) by blast
  next
    case r: (Inr r)
    show ?thesis
    proof (cases "success r")
      case True
      with b r show ?thesis using that(3) by blast
    next
      case nr: False
      show ?thesis
      proof (cases "fst (c_requestAirdrop c TARGET_ADDRESS (min SOL_AMOUNT 2))")
        case (Inl e)
        with b r nr show ?thesis using that(4) by blast
      next
        case (Inr r2)
        with b r nr show ?thesis using that(5) that(6) by blast
      qed
    qed
  qed
qed

lemma requestSol_counts:
  "totalRequests (fst (snd (requestSol h c st))) = totalRequests st + 1 \<and>
   successfulRequests (fst (snd (requestSol h c st)))
     + failedRequests (fst (snd (requestSol h c st)))
   = successfulRequests st + failedRequests st + 1"
proof (cases c rule: run_cases)
  case (balance_raises e)
  then show ?thesis by (simp add: requestSol_balance_raises started_def)
next
  case (faucet_raises b e)
  then show ?thesis by (simp add: requestSol_faucet_raises started_def)
next
  case (faucet_ok b r)
  then show ?thesis by (simp add: requestSol_faucet_ok started_def)
next
  case (airdrop_raises b r e)
  then show ?thesis by (simp add: requestSol_airdrop_raises started_def)
next
  case (airdrop_ok b r r2)
  then show ?thesis by (simp add: requestSol_airdrop_ok started_def)
next
  case (both_fail b r r2)
  then show ?thesis by (simp add: requestSol_both_fail started_def)
qed

section \<open>What the clients of the source return\<close>

lemma getBalance_fst:
  "fst (getBalance e a s) =
     Inr (case newPublicKey e a of
            Inl err \<Rightarrow> None
          | Inr pk \<Rightarrow>
              (case conn_getBalance e pk of
                 Inl err \<Rightarrow> None
               | Inr n \<Rightarrow> Some (of_nat n / LAMPORTS_PER_SOL)))"
  by (simp add: getBalance_def prog_defs split: sum.splits)

lemma requestDevnetSol_fst:
  "fst (requestDevnetSol h e a n s) =
     Inr (case axios_post e FAUCET_URL
                 (JObj [(''address'', JStr a),
                        (''amount'', JNum (js_times h n LAMPORTS_PER_SOL))])
                 (JObj [(''headers'', JObj [(''Content-Type'', JStr ''application/json'')]),
                        (''timeout'', JNum 30000)]) of
            Inl err \<Rightarrow> failed_with err
          | Inr response \<Rightarrow>
              if truthy (data response) \<and> truthy (js_prop (data response) ''signature'')
              then
                if stringifiable (js_prop (data response) ''signature'')
                then \<lparr>success = True, signature = js_prop (data response) ''signature'',
                      error = JUndefined\<rparr>
                else failed_with (JsError ''Cannot convert object to primitive value'' None)
              else \<lparr>success = False, signature = JUndefined,
                    error = JStr ''No signature returned''\<rparr>)"
  by (simp add: requestDevnetSol_def prog_defs interpolate_def failed_with_def Let_def
      split: sum.splits option.splits)

lemma requestAirdrop_fst:
  "fst (requestAirdrop h e a n s) =
     Inr (case newPublicKey e a of
            Inl err \<Rightarrow> failed_with err
          | Inr pk \<Rightarrow>
              (case conn_requestAirdrop e pk (js_times h n LAMPORTS_PER_SOL) of
                 Inl err \<Rightarrow> failed_with err
               | Inr sg \<Rightarrow>
                   (case conn_confirmTransaction e sg ''confirmed'' of
                      Inl err \<Rightarrow> failed_with err
                    | Inr u \<Rightarrow> \<lparr>success = True, signature = JStr sg, error = JUndefined\<rparr>)))"
  by (simp add: requestAirdrop_def prog_defs failed_with_def split: sum.splits)

lemma fst_run_io: "fst (run_io m) = fst (m ())"
  by (simp add: run_io_def split: prod.splits)


section \<open>The airdrop calls of a run\<close>

lemma requestSol_index_airdrop_calls:
  assumes "requestCount s < MAX_REQUESTS_PER_SESSION"
    and "fst (c_getBalance c TARGET_ADDRESS) = Inr b"
    and "fst (c_requestDevnetSol c TARGET_ADDRESS SOL_AMOUNT) = Inr r"
  shows "airdrop_calls (snd (snd (requestSol_index h c s))) =
           (if success r then [] else [min SOL_AMOUNT 2])"
  using assms
  by (simp add: requestSol_index_def prog_defs split: option.splits sum.splits prod.splits)

lemma requestSol_airdrop_calls:
  assumes "fst (c_getBalance c TARGET_ADDRESS) = Inr b"
    and "fst (c_requestDevnetSol c TARGET_ADDRESS SOL_AMOUNT) = Inr r"
  shows "airdrop_calls (snd (snd (requestSol h c st))) =
           (if success r then [] else [min SOL_AMOUNT 2])"
proof (cases c rule: run_cases)
  case (balance_raises e)
  with assms show ?thesis by simp
next
  case (faucet_raises b e)
  with assms show ?thesis by simp
next
  case (faucet_ok b r)
  with assms show ?thesis
    by (simp add: requestSol_faucet_ok airdrop_calls_append airdrop_calls_balance_log)
next
  case (airdrop_raises b r e)
  with assms show ?thesis
    by (simp add: requestSol_airdrop_raises airdrop_calls_append airdrop_calls_balance_log)
next
  case (airdrop_ok b r r2)
  with assms show ?thesis
    by (simp add: requestSol_airdrop_ok airdrop_calls_append airdrop_calls_balance_log)
next
  case (both_fail b r r2)
  with assms show ?thesis
    by (simp add: requestSol_both_fail airdrop_calls_append airdrop_calls_balance_log)
qed

section \<open>The example worlds, evaluated\<close>

lemma example_clients:
  "fst (c_getBalance (clients_of example_host env_airdrop_ok) TARGET_ADDRESS) = Inr (Some (3 / 2))"
  "fst (c_requestDevnetSol (clients_of example_host env_airdrop_ok) TARGET_ADDRESS SOL_AMOUNT) =
     Inr \<lparr>success = False, signature = JUndefined,
          error = JStr ''timeout of 30000ms exceeded''\<rparr>"
  "fst (c_requestAirdrop (clients_of example_host env_airdrop_ok) TARGET_ADDRESS (min SOL_AMOUNT 2)) =
     Inr \<lparr>success = True, signature = JStr ''5J7'', error = JUndefined\<rparr>"
  "fst (c_getBalance (clients_of example_host env_faucet_ok) TARGET_ADDRESS) = Inr (Some (3 / 2))"
  "fst (c_requestDevnetSol (clients_of example_host env_faucet_ok) TARGET_ADDRESS SOL_AMOUNT) =
     Inr \<lparr>success = True, signature = JStr ''5J7'', error = JUndefined\<rparr>"
  "fst (c_getBalance (clients_of example_host env_both_fail) TARGET_ADDRESS) = Inr (Some (3 / 2))"
  "fst (c_requestDevnetSol (clients_of example_host env_both_fail) TARGET_ADDRESS SOL_AMOUNT) =
     Inr \<lparr>success = False, signature = JUndefined,
          error = JStr ''Request failed with status code 429''\<rparr>"
  "fst (c_requestAirdrop (clients_of example_host env_both_fail) TARGET_ADDRESS (min SOL_AMOUNT 2)) =
     Inr \<lparr>success = False, signature = JUndefined, error = JStr ''airdrop limit reached''\<rparr>"
  "fst (c_getBalance (clients_of example_host env_no_balance) TARGET_ADDRESS) = Inr None"
  "fst (c_requestDevnetSol (clients_of example_host env_no_balance) TARGET_ADDRESS SOL_AMOUNT) =
     Inr \<lparr>success = True, signature = JStr ''5J7'', error = JUndefined\<rparr>"
  "fst (c_getBalance (clients_of example_host env_zero_balance) TARGET_ADDRESS) = Inr (Some 0)"
  "fst (c_requestDevnetSol (clients_of example_host env_zero_balance) TARGET_ADDRESS SOL_AMOUNT) =
     Inr \<lparr>success = True, signature = JStr ''5J7'', error = JUndefined\<rparr>"
  by (simp_all add: clients_of_def fst_run_io getBalance_fst requestDevnetSol_fst
      requestAirdrop_fst failed_with_def env_airdrop_ok_def env_faucet_ok_def
      env_both_fail_def env_no_balance_def env_zero_balance_def LAMPORTS_PER_SOL_def
      example_host_def)

section \<open>The replies of the routes\<close>

lemma has_signature_test:
  "(truthy d \<and> truthy (js_prop d ''signature'')) = has_signature d"
  by (cases d) (simp_all split: option.splits)

lemma balance_text_balance_val:
  "balance_text h (balance_val b) s =
     (Inr (case b of
             Some x \<Rightarrow> if x = 0 then JStr ''Unknown'' else JStr (toFixed h 4 x)
           | None \<Rightarrow> JStr ''Unknown''), s, [])"
  by (simp add: balance_text_def balance_val_def prog_defs split: option.splits)

lemma balance_text_undefined: "balance_text h JUndefined s = (Inr (JStr ''Unknown''), s, [])"
  by (simp add: balance_text_def prog_defs)



lemma get_root_reply:
  assumes "fst (c_getBalance c TARGET_ADDRESS) = Inr b"
  shows "\<exists>r. fst (get_root h c st) = Inr r \<and> statusCode r = 200 \<and>
           js_prop (body r) ''currentBalance'' =
             (case b of
                Some x \<Rightarrow> if x = 0 then JStr ''Unknown'' else JStr (toFixed h 4 x)
              | None \<Rightarrow> JStr ''Unknown'') \<and>
           js_prop (body r) ''statistics'' = statistics h st"
  using assms
  by (simp add: get_root_def andThen_def tryCatch_def call_def getState_def pure_def
      balance_text_balance_val)

lemma get_balance_reply:
  assumes "fst (c_getBalance c TARGET_ADDRESS) = Inr b"
  shows "\<exists>r. fst (get_balance h c st) = Inr r \<and> statusCode r = 200 \<and>
           js_prop (body r) ''balance'' =
             (case b of
                Some x \<Rightarrow> if x = 0 then JStr ''Unknown'' else JStr (toFixed h 4 x)
              | None \<Rightarrow> JStr ''Unknown'') \<and>
           js_prop (body r) ''balanceSOL'' = balance_val b"
  using assms
  by (simp add: get_balance_def andThen_def tryCatch_def call_def getState_def pure_def
      balance_text_balance_val)

text \<open>What every run of the service's orchestrator comes to.\<close>

lemma requestSol_summary:
  "\<exists>out st' tr. requestSol h c st = (Inr out, st', tr) \<and>
     success out = funding_succeeds c \<and>
     (currentBalance out = JUndefined \<or>
      (\<exists>b. fst (c_getBalance c TARGET_ADDRESS) = Inr b \<and> currentBalance out = balance_val b)) \<and>
     (success out \<longrightarrow>
        (\<exists>b. fst (c_getBalance c TARGET_ADDRESS) = Inr b \<and> currentBalance out = balance_val b))"
proof (cases c rule: run_cases)
  case (balance_raises e)
  then show ?thesis
    by (simp add: requestSol_balance_raises funding_succeeds_def caught_def)
next
  case (faucet_raises b e)
  then show ?thesis
    by (simp add: requestSol_faucet_raises funding_succeeds_def caught_def)
next
  case (faucet_ok b r)
  then show ?thesis by (simp add: requestSol_faucet_ok funding_succeeds_def)
next
  case (airdrop_raises b r e)
  then show ?thesis
    by (simp add: requestSol_airdrop_raises funding_succeeds_def caught_def)
next
  case (airdrop_ok b r r2)
  then show ?thesis by (simp add: requestSol_airdrop_ok funding_succeeds_def)
next
  case (both_fail b r r2)
  then show ?thesis by (simp add: requestSol_both_fail funding_succeeds_def)
qed

lemma post_request_reply:
  assumes run: "requestSol h c st = (Inr out, st', tr)"
    and bt: "balance_text h (currentBalance out) st' = (Inr t, st', [])"
  shows "fst (post_request h c st) =
     Inr (if success out then
            \<lparr>statusCode = 200,
             body = JObj
               [(''success'', JBool True),
                (''message'', JStr (message out)),
                (''data'', JObj
                   [(''signature'', signature out),
                    (''requestedAmount'', requestedAmount out),
                    (''currentBalance'', t),
                    (''timestamp'', JStr (time_response h))]),
                (''statistics'', JObj (stats_props st'))]\<rparr>
          else
            \<lparr>statusCode = 400,
             body = JObj
               [(''success'', JBool False),
                (''message'', JStr (message out)),
                (''error'', error out),
                (''data'', JObj
                   [(''currentBalance'', t),
                    (''timestamp'', JStr (time_response h))]),
                (''statistics'', JObj (stats_props st'))]\<rparr>)"
  using run bt
  by (simp add: post_request_def andThen_def tryCatch_def getState_def pure_def
      logger_info_def emit_def)

lemma post_request_balance:
  assumes "fst (c_getBalance c TARGET_ADDRESS) = Inr b"
  shows "\<exists>r. fst (post_request h c st) = Inr r \<and>
           statusCode r = (if funding_succeeds c then 200 else 400) \<and>
           (js_prop (js_prop (body r) ''data'') ''currentBalance'' = JStr ''Unknown'' \<or>
            js_prop (js_prop (body r) ''data'') ''currentBalance'' =
              (case b of
                 Some x \<Rightarrow> if x = 0 then JStr ''Unknown'' else JStr (toFixed h 4 x)
               | None \<Rightarrow> JStr ''Unknown'')) \<and>
           (funding_succeeds c \<longrightarrow>
              js_prop (js_prop (body r) ''data'') ''currentBalance'' =
                (case b of
                   Some x \<Rightarrow> if x = 0 then JStr ''Unknown'' else JStr (toFixed h 4 x)
                 | None \<Rightarrow> JStr ''Unknown''))"
proof -
  obtain out st' tr where run: "requestSol h c st = (Inr out, st', tr)"
    and ok: "success out = funding_succeeds c"
    and bal: "currentBalance out = JUndefined \<or> currentBalance out = balance_val b"
    and sbal: "success out \<longrightarrow> currentBalance out = balance_val b"
    using requestSol_summary [of h c st] assms by auto
  from bal show ?thesis
  proof
    assume u: "currentBalance out = JUndefined"
    have "balance_text h (currentBalance out) st' = (Inr (JStr ''Unknown''), st', [])"
      by (simp add: u balance_text_undefined)
    from post_request_reply [OF run this] ok sbal u show ?thesis
      by (auto simp: balance_val_def split: option.splits)
  next
    assume v: "currentBalance out = balance_val b"
    have "balance_text h (currentBalance out) st' =
        (Inr (case b of
             Some x \<Rightarrow> if x = 0 then JStr ''Unknown'' else JStr (toFixed h 4 x)
           | None \<Rightarrow> JStr ''Unknown''), st', [])"
      by (simp add: v balance_text_balance_val)
    from post_request_reply [OF run this] ok show ?thesis
      by simp
  qed
qed

lemma example_funding:
  "funding_succeeds (clients_of example_host env_no_balance)"
  "funding_succeeds (clients_of example_host env_zero_balance)"
  by (simp_all add: funding_succeeds_def example_clients)

section \<open>Requests that overlap: what each piece does\<close>

lemma requestSol_begin_result:
  "requestSol_begin h st =
     (Inr (), started h st,
      [Log Info ''Starting SOL request #${stats.totalRequests}''
         [JNum (of_nat (totalRequests st + 1))]])"
  by (simp add: requestSol_begin_def prog_defs started_def)

lemma requestSol_catch_counts:
  "\<exists>out st' tr. requestSol_catch e st = (Inr (Inr out), st', tr) \<and>
     totalRequests st' = totalRequests st \<and> counted st' = counted st + 1"
  by (simp add: requestSol_catch_def prog_defs counted_def)

lemma requestSol_finish_counts:
  "\<exists>out st' tr. requestSol_finish h b r st = (Inr (Inr out), st', tr) \<and>
     totalRequests st' = totalRequests st \<and> counted st' = counted st + 1"
  by (simp add: requestSol_finish_def prog_defs counted_def)

lemma requestSol_resume_counts:
  "(\<exists>p' st' tr. requestSol_resume h c p st = (Inr (Inl p'), st', tr) \<and>
      totalRequests st' = totalRequests st \<and> counted st' = counted st) \<or>
   (\<exists>out st' tr. requestSol_resume h c p st = (Inr (Inr out), st', tr) \<and>
      totalRequests st' = totalRequests st \<and> counted st' = counted st + 1)"
proof (cases p)
  case Pending_getBalance
  show ?thesis
  proof (cases "fst (c_getBalance c TARGET_ADDRESS)")
    case (Inl e)
    with Pending_getBalance requestSol_catch_counts [of e st] show ?thesis
      by (auto simp: tryCatch_def andThen_def call_def)
  next
    case (Inr b)
    with Pending_getBalance show ?thesis
      by (simp add: prog_defs split: option.splits)
  qed
next
  case (Pending_requestDevnetSol b)
  show ?thesis
  proof (cases "fst (c_requestDevnetSol c TARGET_ADDRESS SOL_AMOUNT)")
    case (Inl e)
    with Pending_requestDevnetSol requestSol_catch_counts [of e st] show ?thesis
      by (auto simp: tryCatch_def andThen_def call_def)
  next
    case (Inr r)
    show ?thesis
    proof (cases "success r")
      case True
      with Inr Pending_requestDevnetSol requestSol_finish_counts [of h b r st] show ?thesis
        by (auto simp: tryCatch_def andThen_def call_def)
    next
      case False
      with Inr Pending_requestDevnetSol show ?thesis
        by (simp add: prog_defs)
    qed
  qed
next
  case (Pending_requestAirdrop b)
  show ?thesis
  proof (cases "fst (c_requestAirdrop c TARGET_ADDRESS (min SOL_AMOUNT 2))")
    case (Inl e)
    with Pending_requestAirdrop requestSol_catch_counts [of e st] show ?thesis
      by (auto simp: tryCatch_def andThen_def call_def)
  next
    case (Inr r)
    with Pending_requestAirdrop requestSol_finish_counts [of h b r st] show ?thesis
      by (auto simp: tryCatch_def andThen_def call_def)
  qed
qed

lemma arrive_accounted: "accounted sv \<Longrightarrow> accounted (arrive h c sv)"
  by (simp add: arrive_def requestSol_begin_result accounted_def started_def counted_def)

lemma advance_accounted:
  assumes "accounted sv"
  shows "accounted (advance i sv)"
proof (cases "i < length (in_flight sv)")
  case False
  with assms show ?thesis by (simp add: advance_def)
next
  case True
  obtain h c p where hcp: "in_flight sv ! i = (h, c, p)"
    by (cases "in_flight sv ! i") auto
  from True have len: "length (take i (in_flight sv) @ drop (Suc i) (in_flight sv)) + 1
      = length (in_flight sv)"
    by simp
  from requestSol_resume_counts [of h c p "service_stats sv"] show ?thesis
  proof (elim disjE exE conjE)
    fix p' st' tr
    assume "requestSol_resume h c p (service_stats sv) = (Inr (Inl p'), st', tr)"
      "totalRequests st' = totalRequests (service_stats sv)"
      "counted st' = counted (service_stats sv)"
    with assms True hcp show ?thesis
      by (simp add: advance_def accounted_def)
  next
    fix out st' tr
    assume "requestSol_resume h c p (service_stats sv) = (Inr (Inr out), st', tr)"
      "totalRequests st' = totalRequests (service_stats sv)"
      "counted st' = counted (service_stats sv) + 1"
    with assms True hcp len show ?thesis
      by (simp add: advance_def accounted_def)
  qed
qed

lemma run_service_accounted: "accounted sv \<Longrightarrow> accounted (run_service acts sv)"
  by (induction acts sv rule: run_service.induct)
    (simp_all add: arrive_accounted advance_accounted)

lemma initial_service_accounted: "accounted (initial_service t)"
  by (simp add: accounted_def initial_service_def initial_stats_def counted_def)

text \<open>Each piece of \<^verbatim>\<open>requestSol\<close>, by what the client it waited for answered.\<close>

lemma resume_balance_raises:
  assumes "fst (c_getBalance c TARGET_ADDRESS) = Inl e"
  shows "requestSol_resume h c Pending_getBalance st =
    (Inr (Inr (caught e)), st\<lparr>failedRequests := failedRequests st + 1\<rparr>,
     [Call (GetBalance TARGET_ADDRESS) (snd (c_getBalance c TARGET_ADDRESS)),
      Log Error ''Request failed with error: ${error.message}'' [JStr (error_message e)]])"
  using assms by (simp add: requestSol_catch_def prog_defs caught_def)

lemma resume_balance_returns:
  assumes "fst (c_getBalance c TARGET_ADDRESS) = Inr b"
  shows "requestSol_resume h c Pending_getBalance st =
    (Inr (Inl (Pending_requestDevnetSol b)), st,
     Call (GetBalance TARGET_ADDRESS) (snd (c_getBalance c TARGET_ADDRESS)) # balance_log h b)"
  using assms by (simp add: prog_defs balance_log_def split: option.splits)

lemma resume_faucet_raises:
  assumes "fst (c_requestDevnetSol c TARGET_ADDRESS SOL_AMOUNT) = Inl e"
  shows "requestSol_resume h c (Pending_requestDevnetSol b) st =
    (Inr (Inr (caught e)), st\<lparr>failedRequests := failedRequests st + 1\<rparr>,
     [Call (RequestDevnetSol TARGET_ADDRESS SOL_AMOUNT)
        (snd (c_requestDevnetSol c TARGET_ADDRESS SOL_AMOUNT)),
      Log Error ''Request failed with error: ${error.message}'' [JStr (error_message e)]])"
  using assms by (simp add: requestSol_catch_def prog_defs caught_def)

lemma resume_faucet_ok:
  assumes "fst (c_requestDevnetSol c TARGET_ADDRESS SOL_AMOUNT) = Inr r" and "success r"
  shows "requestSol_resume h c (Pending_requestDevnetSol b) st =
    (Inr (Inr \<lparr>success = True, signature = signature r, error = JUndefined,
               message = ''SOL request completed successfully'',
               currentBalance = balance_val b,
               requestedAmount =
                 JNum (if truthy (signature r) then SOL_AMOUNT else min SOL_AMOUNT 2)\<rparr>),
     st\<lparr>successfulRequests := successfulRequests st + 1,
        lastSuccessTime := Some (time_success h)\<rparr>,
     [Call (RequestDevnetSol TARGET_ADDRESS SOL_AMOUNT)
        (snd (c_requestDevnetSol c TARGET_ADDRESS SOL_AMOUNT)),
      SetTimeout 5000 b])"
  using assms by (simp add: requestSol_finish_def requestSol_catch_def prog_defs)

lemma resume_faucet_failed:
  assumes "fst (c_requestDevnetSol c TARGET_ADDRESS SOL_AMOUNT) = Inr r" and "\<not> success r"
  shows "requestSol_resume h c (Pending_requestDevnetSol b) st =
    (Inr (Inl (Pending_requestAirdrop b)), st,
     [Call (RequestDevnetSol TARGET_ADDRESS SOL_AMOUNT)
        (snd (c_requestDevnetSol c TARGET_ADDRESS SOL_AMOUNT)),
      Log Info ''Faucet API failed, trying direct airdrop method...'' []])"
  using assms by (simp add: prog_defs)

lemma resume_airdrop_raises:
  assumes "fst (c_requestAirdrop c TARGET_ADDRESS (min SOL_AMOUNT 2)) = Inl e"
  shows "requestSol_resume h c (Pending_requestAirdrop b) st =
    (Inr (Inr (caught e)), st\<lparr>failedRequests := failedRequests st + 1\<rparr>,
     [Call (RequestAirdrop TARGET_ADDRESS (min SOL_AMOUNT 2))
        (snd (c_requestAirdrop c TARGET_ADDRESS (min SOL_AMOUNT 2))),
      Log Error ''Request failed with error: ${error.message}'' [JStr (error_message e)]])"
  using assms by (simp add: requestSol_catch_def prog_defs caught_def)

lemma resume_airdrop_ok:
  assumes "fst (c_requestAirdrop c TARGET_ADDRESS (min SOL_AMOUNT 2)) = Inr r" and "success r"
  shows "requestSol_resume h c (Pending_requestAirdrop b) st =
    (Inr (Inr \<lparr>success = True, signature = signature r, error = JUndefined,
               message = ''SOL request completed successfully'',
               currentBalance = balance_val b,
               requestedAmount =
                 JNum (if truthy (signature r) then SOL_AMOUNT else min SOL_AMOUNT 2)\<rparr>),
     st\<lparr>successfulRequests := successfulRequests st + 1,
        lastSuccessTime := Some (time_success h)\<rparr>,
     [Call (RequestAirdrop TARGET_ADDRESS (min SOL_AMOUNT 2))
        (snd (c_requestAirdrop c TARGET_ADDRESS (min SOL_AMOUNT 2))),
      SetTimeout 5000 b])"
  using assms by (simp add: requestSol_finish_def requestSol_catch_def prog_defs)

lemma resume_airdrop_failed:
  assumes "fst (c_requestAirdrop c TARGET_ADDRESS (min SOL_AMOUNT 2)) = Inr r"
    and "\<not> success r"
  shows "requestSol_resume h c (Pending_requestAirdrop b) st =
    (Inr (Inr \<lparr>success = False, signature = JUndefined, error = error r,
               message = ''SOL request failed'',
               currentBalance = balance_val b, requestedAmount = JUndefined\<rparr>),
     st\<lparr>failedRequests := failedRequests st + 1\<rparr>,
     [Call (RequestAirdrop TARGET_ADDRESS (min SOL_AMOUNT 2))
        (snd (c_requestAirdrop c TARGET_ADDRESS (min SOL_AMOUNT 2)))])"
  using assms by (simp add: requestSol_finish_def requestSol_catch_def prog_defs)

lemma arrive_result:
  "arrive h c sv =
     sv\<lparr>service_stats := started h (service_stats sv),
        in_flight := in_flight sv @ [(h, c, Pending_getBalance)],
        history := history sv @
          [Log Info ''Starting SOL request #${stats.totalRequests}''
             [JNum (of_nat (totalRequests (service_stats sv) + 1))]]\<rparr>"
  by (simp add: arrive_def requestSol_begin_result)

lemma advance_continues:
  assumes "i < length (in_flight sv)" and "in_flight sv ! i = (h, c, p)"
    and "requestSol_resume h c p (service_stats sv) = (Inr (Inl p'), st, tr)"
  shows "advance i sv =
     sv\<lparr>service_stats := st, in_flight := (in_flight sv)[i := (h, c, p')],
        history := history sv @ tr\<rparr>"
  using assms by (simp add: advance_def)

lemma advance_completes:
  assumes "i < length (in_flight sv)" and "in_flight sv ! i = (h, c, p)"
    and "requestSol_resume h c p (service_stats sv) = (Inr (Inr out), st, tr)"
  shows "advance i sv =
     sv\<lparr>service_stats := st,
        in_flight := take i (in_flight sv) @ drop (Suc i) (in_flight sv),
        completed := completed sv @ [Inr out],
        history := history sv @ tr\<rparr>"
  using assms by (simp add: advance_def)

lemma advance_idle: "in_flight sv = [] \<Longrightarrow> advance i sv = sv"
  by (simp add: advance_def)

text \<open>
  A request that runs alone, from its arrival to its end, is \<^verbatim>\<open>requestSol\<close> as defined
  above: same statistics, same outcome, same trace.
\<close>

lemma arrive_single:
  "arrive h c \<lparr>service_stats = st, in_flight = [], completed = done, history = tr0\<rparr> =
     \<lparr>service_stats = started h st, in_flight = [(h, c, Pending_getBalance)],
      completed = done,
      history = tr0 @ [Log Info ''Starting SOL request #${stats.totalRequests}''
                         [JNum (of_nat (totalRequests st + 1))]]\<rparr>"
  by (simp add: arrive_result)

lemma advance_single_continues:
  assumes "requestSol_resume h c p st = (Inr (Inl p'), st', tr)"
  shows "advance 0 \<lparr>service_stats = st, in_flight = [(h, c, p)], completed = done,
                    history = tr0\<rparr> =
     \<lparr>service_stats = st', in_flight = [(h, c, p')], completed = done,
      history = tr0 @ tr\<rparr>"
  using assms by (simp add: advance_def)

lemma advance_single_completes:
  assumes "requestSol_resume h c p st = (Inr (Inr out), st', tr)"
  shows "advance 0 \<lparr>service_stats = st, in_flight = [(h, c, p)], completed = done,
                    history = tr0\<rparr> =
     \<lparr>service_stats = st', in_flight = [], completed = done @ [Inr out],
      history = tr0 @ tr\<rparr>"
  using assms by (simp add: advance_def)

lemma advance_none:
  "advance i \<lparr>service_stats = st, in_flight = [], completed = done, history = tr0\<rparr> =
     \<lparr>service_stats = st, in_flight = [], completed = done, history = tr0\<rparr>"
  by (simp add: advance_def)

lemma alone_is_requestSol:
  "run_service [Arrive h c, Advance 0, Advance 0, Advance 0]
     \<lparr>service_stats = st, in_flight = [], completed = done, history = tr0\<rparr> =
   \<lparr>service_stats = fst (snd (requestSol h c st)), in_flight = [],
    completed = done @ [fst (requestSol h c st)],
    history = tr0 @ snd (snd (requestSol h c st))\<rparr>"
proof (cases c rule: run_cases)
  case (balance_raises e)
  show ?thesis
    by (simp add: requestSol_balance_raises [OF balance_raises] arrive_single
        advance_single_completes [OF resume_balance_raises [OF balance_raises]]
        advance_none started_def)
next
  case (faucet_raises b e)
  show ?thesis
    by (simp add: requestSol_faucet_raises [OF faucet_raises] arrive_single
        advance_single_continues [OF resume_balance_returns [OF faucet_raises(1)]]
        advance_single_completes [OF resume_faucet_raises [OF faucet_raises(2)]]
        advance_none started_def)
next
  case (faucet_ok b r)
  show ?thesis
    by (simp add: requestSol_faucet_ok [OF faucet_ok] arrive_single
        advance_single_continues [OF resume_balance_returns [OF faucet_ok(1)]]
        advance_single_completes [OF resume_faucet_ok [OF faucet_ok(2) faucet_ok(3)]]
        advance_none started_def)
next
  case (airdrop_raises b r e)
  show ?thesis
    by (simp add: requestSol_airdrop_raises [OF airdrop_raises] arrive_single
        advance_single_continues [OF resume_balance_returns [OF airdrop_raises(1)]]
        advance_single_continues
          [OF resume_faucet_failed [OF airdrop_raises(2) airdrop_raises(3)]]
        advance_single_completes [OF resume_airdrop_raises [OF airdrop_raises(4)]]
        started_def)
next
  case (airdrop_ok b r r2)
  show ?thesis
    by (simp add: requestSol_airdrop_ok [OF airdrop_ok] arrive_single
        advance_single_continues [OF resume_balance_returns [OF airdrop_ok(1)]]
        advance_single_continues [OF resume_faucet_failed [OF airdrop_ok(2) airdrop_ok(3)]]
        advance_single_completes [OF resume_airdrop_ok [OF airdrop_ok(4) airdrop_ok(5)]]
        started_def)
next
  case (both_fail b r r2)
  show ?thesis
    by (simp add: requestSol_both_fail [OF both_fail] arrive_single
        advance_single_continues [OF resume_balance_returns [OF both_fail(1)]]
        advance_single_continues [OF resume_faucet_failed [OF both_fail(2) both_fail(3)]]
        advance_single_completes [OF resume_airdrop_failed [OF both_fail(4) both_fail(5)]]
        started_def)
qed

lemma advance_continues_parts:
  assumes "i < length (in_flight sv)" and "in_flight sv ! i = (h, c, p)"
    and "requestSol_resume h c p (service_stats sv) = (Inr (Inl p'), st, tr)"
  shows "service_stats (advance i sv) = st"
    and "in_flight (advance i sv) = (in_flight sv)[i := (h, c, p')]"
    and "completed (advance i sv) = completed sv"
  using assms by (simp_all add: advance_def)

lemma advance_completes_parts:
  assumes "i < length (in_flight sv)" and "in_flight sv ! i = (h, c, p)"
    and "requestSol_resume h c p (service_stats sv) = (Inr (Inr out), st, tr)"
  shows "service_stats (advance i sv) = st"
    and "in_flight (advance i sv) = take i (in_flight sv) @ drop (Suc i) (in_flight sv)"
    and "completed (advance i sv) = completed sv @ [Inr out]"
  using assms by (simp_all add: advance_def)

lemma run_service_append:
  "run_service (xs @ ys) sv = run_service ys (run_service xs sv)"
  by (induction xs sv rule: run_service.induct) simp_all

section \<open>The POST of the faucet client\<close>

lemma requestDevnetSol_lib_calls:
  "lib_calls (snd (snd (requestDevnetSol h e a n s))) =
     [Axios_post FAUCET_URL
        (JObj [(''address'', JStr a), (''amount'', JNum (js_times h n LAMPORTS_PER_SOL))])
        (JObj [(''headers'', JObj [(''Content-Type'', JStr ''application/json'')]),
               (''timeout'', JNum 30000)])]"
  by (simp add: requestDevnetSol_def prog_defs interpolate_def Let_def
      split: sum.splits option.splits)

section \<open>The claims\<close>

text \<open>
  Claim C1. In the scheduled loop, the only program with a session counter, a call of
  \<^verbatim>\<open>requestSol\<close> with \<^verbatim>\<open>requestCount >= MAX_REQUESTS_PER_SESSION\<close> returns at once: it
  calls no client (neither the faucet, nor the airdrop, nor the balance read), leaves
  the state of the program as it is, and logs one line. (That program keeps no
  statistics; the counter is all its state.)
\<close>

theorem session_limit_skips:
  assumes "requestCount s \<ge> MAX_REQUESTS_PER_SESSION"
  shows "fst (requestSol_index h c s) = Inr () \<and>
         fst (snd (requestSol_index h c s)) = s \<and>
         client_calls (snd (snd (requestSol_index h c s))) = [] \<and>
         snd (snd (requestSol_index h c s)) =
           [Log Info
              ''Maximum requests (${MAX_REQUESTS_PER_SESSION}) reached for this session. Waiting for next cycle.''
              [JNum (of_nat MAX_REQUESTS_PER_SESSION)]]"
  using assms by (simp add: requestSol_index_def prog_defs)

text \<open>The session of the loop after two requests, at the limit of two.\<close>

theorem session_limit_skips_witness:
  "requestCount \<lparr>requestCount = 2\<rparr> \<ge> MAX_REQUESTS_PER_SESSION \<and>
   fst (requestSol_index example_host (clients_of example_host env_faucet_ok) \<lparr>requestCount = 2\<rparr>) = Inr () \<and>
   fst (snd (requestSol_index example_host (clients_of example_host env_faucet_ok) \<lparr>requestCount = 2\<rparr>))
     = \<lparr>requestCount = 2\<rparr> \<and>
   client_calls (snd (snd (requestSol_index example_host (clients_of example_host env_faucet_ok)
     \<lparr>requestCount = 2\<rparr>))) = []"
proof -
  have limit: "requestCount \<lparr>requestCount = 2\<rparr> \<ge> MAX_REQUESTS_PER_SESSION"
    by (simp add: MAX_REQUESTS_PER_SESSION_def)
  show ?thesis
    using limit session_limit_skips [OF limit, of example_host "clients_of example_host env_faucet_ok"]
    by simp
qed

text \<open>
  Claim C2, as stated, fails in the service. \<^verbatim>\<open>requestSol\<close> counts a request in
  \<^verbatim>\<open>totalRequests\<close> before its first \<^verbatim>\<open>await\<close> and counts its success or failure after
  its last, and \<^verbatim>\<open>POST /request\<close> takes no lock. Two requests arrive; the first one
  reads the balance, is answered by the faucet and returns. One orchestration is
  completed and one is in flight: \<^verbatim>\<open>totalRequests\<close> is 2 and
  \<^verbatim>\<open>successfulRequests + failedRequests\<close> is 1.
\<close>

theorem overlapping_requests_counterexample:
  "length (completed (run_service
      [Arrive example_host (clients_of example_host env_faucet_ok),
       Arrive example_host (clients_of example_host env_faucet_ok),
       Advance 0, Advance 0] (initial_service 0))) = 1 \<and>
   length (in_flight (run_service
      [Arrive example_host (clients_of example_host env_faucet_ok),
       Arrive example_host (clients_of example_host env_faucet_ok),
       Advance 0, Advance 0] (initial_service 0))) = 1 \<and>
   totalRequests (service_stats (run_service
      [Arrive example_host (clients_of example_host env_faucet_ok),
       Arrive example_host (clients_of example_host env_faucet_ok),
       Advance 0, Advance 0] (initial_service 0))) = 2 \<and>
   successfulRequests (service_stats (run_service
      [Arrive example_host (clients_of example_host env_faucet_ok),
       Arrive example_host (clients_of example_host env_faucet_ok),
       Advance 0, Advance 0] (initial_service 0))) = 1 \<and>
   failedRequests (service_stats (run_service
      [Arrive example_host (clients_of example_host env_faucet_ok),
       Arrive example_host (clients_of example_host env_faucet_ok),
       Advance 0, Advance 0] (initial_service 0))) = 0"
proof -
  let ?c = "clients_of example_host env_faucet_ok"
  let ?s2 = "arrive example_host ?c (arrive example_host ?c (initial_service 0))"
  let ?s3 = "advance 0 ?s2"
  let ?s4 = "advance 0 ?s3"
  have s2: "in_flight ?s2 =
      [(example_host, ?c, Pending_getBalance), (example_host, ?c, Pending_getBalance)]"
    "completed ?s2 = []" "totalRequests (service_stats ?s2) = 2"
    "successfulRequests (service_stats ?s2) = 0" "failedRequests (service_stats ?s2) = 0"
    by (simp_all add: arrive_result initial_service_def initial_stats_def started_def)
  have first2: "0 < length (in_flight ?s2)"
    "in_flight ?s2 ! 0 = (example_host, ?c, Pending_getBalance)"
    by (simp_all add: s2)
  note step3 = advance_continues_parts [OF first2 resume_balance_returns [OF example_clients(4)]]
  have s3: "in_flight ?s3 =
      [(example_host, ?c, Pending_requestDevnetSol (Some (3 / 2))),
       (example_host, ?c, Pending_getBalance)]"
    "completed ?s3 = []" "service_stats ?s3 = service_stats ?s2"
    by (simp_all add: step3 s2)
  have first3: "0 < length (in_flight ?s3)"
    "in_flight ?s3 ! 0 = (example_host, ?c, Pending_requestDevnetSol (Some (3 / 2)))"
    by (simp_all add: s3)
  have answered: "success \<lparr>success = True, signature = JStr ''5J7'', error = JUndefined\<rparr>"
    by simp
  note step4 = advance_completes_parts
    [OF first3 resume_faucet_ok [OF example_clients(5) answered]]
  have s4: "length (in_flight ?s4) = 1" "length (completed ?s4) = 1"
    "totalRequests (service_stats ?s4) = 2" "successfulRequests (service_stats ?s4) = 1"
    "failedRequests (service_stats ?s4) = 0"
    by (simp_all add: step4 s3 s2)
  show ?thesis
    using s4 by simp
qed

text \<open>
  Claim C2, amended. In whatever order requests arrive and go on, \<^verbatim>\<open>totalRequests\<close> is
  \<^verbatim>\<open>successfulRequests + failedRequests\<close> plus the number of orchestrations in flight,
  and \<^verbatim>\<open>successfulRequests + failedRequests\<close> is the number of completed orchestrations.
  So whenever no orchestration is in flight, as when requests run one after the other,
  \<^verbatim>\<open>totalRequests == successfulRequests + failedRequests\<close>, and after \<open>N\<close> completed
  orchestrations both are \<open>N\<close>.
\<close>

theorem statistics_count_in_flight:
  assumes "sv = run_service acts (initial_service t)"
  shows "totalRequests (service_stats sv) =
           successfulRequests (service_stats sv) + failedRequests (service_stats sv)
           + length (in_flight sv) \<and>
         successfulRequests (service_stats sv) + failedRequests (service_stats sv)
           = length (completed sv) \<and>
         (in_flight sv = [] \<longrightarrow>
            totalRequests (service_stats sv) =
              successfulRequests (service_stats sv) + failedRequests (service_stats sv) \<and>
            totalRequests (service_stats sv) = length (completed sv))"
  using run_service_accounted [OF initial_service_accounted, of acts t] assms
  by (simp add: accounted_def counted_def)

text \<open>Two requests, the second one arriving when the first has returned.\<close>

theorem statistics_count_in_flight_witness:
  "in_flight (run_service
      [Arrive example_host (clients_of example_host env_faucet_ok),
       Advance 0, Advance 0, Advance 0,
       Arrive example_host (clients_of example_host env_both_fail),
       Advance 0, Advance 0, Advance 0] (initial_service 0)) = [] \<and>
   totalRequests (service_stats (run_service
      [Arrive example_host (clients_of example_host env_faucet_ok),
       Advance 0, Advance 0, Advance 0,
       Arrive example_host (clients_of example_host env_both_fail),
       Advance 0, Advance 0, Advance 0] (initial_service 0))) = 2 \<and>
   length (completed (run_service
      [Arrive example_host (clients_of example_host env_faucet_ok),
       Advance 0, Advance 0, Advance 0,
       Arrive example_host (clients_of example_host env_both_fail),
       Advance 0, Advance 0, Advance 0] (initial_service 0))) = 2"
proof -
  let ?a = "[Arrive example_host (clients_of example_host env_faucet_ok),
             Advance 0, Advance 0, Advance 0]"
  let ?b = "[Arrive example_host (clients_of example_host env_both_fail),
             Advance 0, Advance 0, Advance 0]"
  have split: "[Arrive example_host (clients_of example_host env_faucet_ok),
       Advance 0, Advance 0, Advance 0,
       Arrive example_host (clients_of example_host env_both_fail),
       Advance 0, Advance 0, Advance 0] = ?a @ ?b"
    by simp
  have idle: "in_flight (run_service (?a @ ?b) (initial_service 0)) = []"
    unfolding run_service_append initial_service_def alone_is_requestSol by simp
  have two: "length (completed (run_service (?a @ ?b) (initial_service 0))) = 2"
    unfolding run_service_append initial_service_def alone_is_requestSol by simp
  show ?thesis
    unfolding split
    using idle two statistics_count_in_flight [OF refl, of "?a @ ?b" 0]
    by simp
qed

text \<open>
  Claim C3. In a run that reaches the faucet client (the session limit of the loop is
  not reached, the balance read returns) and in which the faucet client returns a
  failure, the airdrop client is called exactly once, with \<^verbatim>\<open>Math.min(SOL_AMOUNT, 2)\<close>,
  which is at most 2; when the faucet client returns success, the airdrop client is
  not called. This holds in the service and in the scheduled loop.
\<close>

theorem airdrop_fallback_once:
  assumes "fst (c_getBalance c TARGET_ADDRESS) = Inr b"
    and "fst (c_requestDevnetSol c TARGET_ADDRESS SOL_AMOUNT) = Inr r"
    and "requestCount s < MAX_REQUESTS_PER_SESSION"
  shows "(\<not> success r \<longrightarrow>
            airdrop_calls (snd (snd (requestSol h c st))) = [min SOL_AMOUNT 2] \<and>
            airdrop_calls (snd (snd (requestSol_index h c s))) = [min SOL_AMOUNT 2] \<and>
            min SOL_AMOUNT 2 \<le> 2) \<and>
         (success r \<longrightarrow>
            airdrop_calls (snd (snd (requestSol h c st))) = [] \<and>
            airdrop_calls (snd (snd (requestSol_index h c s))) = [])"
  using requestSol_airdrop_calls [OF assms(1) assms(2), of h st]
    requestSol_index_airdrop_calls [OF assms(3) assms(1) assms(2), of h]
  by simp

text \<open>The faucet times out and the airdrop is called with 2; the faucet answers and it is not.\<close>

theorem airdrop_fallback_once_witness:
  "\<not> success \<lparr>success = False, signature = JUndefined,
               error = JStr ''timeout of 30000ms exceeded''\<rparr> \<and>
   requestCount initial_session < MAX_REQUESTS_PER_SESSION \<and>
   airdrop_calls (snd (snd (requestSol example_host (clients_of example_host env_airdrop_ok)
     (initial_stats 0)))) = [2] \<and>
   airdrop_calls (snd (snd (requestSol_index example_host (clients_of example_host env_airdrop_ok)
     initial_session))) = [2] \<and>
   success \<lparr>success = True, signature = JStr ''5J7'', error = JUndefined\<rparr> \<and>
   airdrop_calls (snd (snd (requestSol example_host (clients_of example_host env_faucet_ok)
     (initial_stats 0)))) = [] \<and>
   airdrop_calls (snd (snd (requestSol_index example_host (clients_of example_host env_faucet_ok)
     initial_session))) = []"
proof -
  have limit: "requestCount initial_session < MAX_REQUESTS_PER_SESSION"
    by (simp add: initial_session_def MAX_REQUESTS_PER_SESSION_def)
  show ?thesis
    using limit
      airdrop_fallback_once [OF example_clients(1) example_clients(2) limit,
        of example_host "initial_stats 0"]
      airdrop_fallback_once [OF example_clients(4) example_clients(5) limit,
        of example_host "initial_stats 0"]
    by (simp add: SOL_AMOUNT_def)
qed

text \<open>
  Claim C4, as stated, fails: the outcome has no property that names the method used.
  A run in which the faucet answers and a run in which the faucet times out and the
  airdrop is confirmed, both with the transaction identifier \<^verbatim>\<open>5J7\<close>, return the same
  outcome.
\<close>

theorem outcome_names_no_method_counterexample:
  "fst (requestSol example_host (clients_of example_host env_faucet_ok) (initial_stats 0)) =
   fst (requestSol example_host (clients_of example_host env_airdrop_ok) (initial_stats 0)) \<and>
   fst (requestSol example_host (clients_of example_host env_faucet_ok) (initial_stats 0)) =
     Inr \<lparr>success = True, signature = JStr ''5J7'', error = JUndefined,
          message = ''SOL request completed successfully'',
          currentBalance = JNum (3 / 2), requestedAmount = JNum 5\<rparr> \<and>
   method_used (snd (snd (requestSol example_host (clients_of example_host env_faucet_ok)
     (initial_stats 0)))) = Faucet \<and>
   method_used (snd (snd (requestSol example_host (clients_of example_host env_airdrop_ok)
     (initial_stats 0)))) = Airdrop \<and>
   client_calls (snd (snd (requestSol example_host (clients_of example_host env_faucet_ok)
     (initial_stats 0)))) =
     [GetBalance TARGET_ADDRESS, RequestDevnetSol TARGET_ADDRESS 5] \<and>
   client_calls (snd (snd (requestSol example_host (clients_of example_host env_airdrop_ok)
     (initial_stats 0)))) =
     [GetBalance TARGET_ADDRESS, RequestDevnetSol TARGET_ADDRESS 5,
      RequestAirdrop TARGET_ADDRESS 2]"
  by (simp add: requestSol_faucet_ok [OF example_clients(4) example_clients(5)]
      requestSol_airdrop_ok [OF example_clients(1) example_clients(2) _ example_clients(3)]
      client_calls_append client_calls_balance_log airdrop_calls_append
      airdrop_calls_balance_log method_used_def balance_val_def SOL_AMOUNT_def)

text \<open>
  Claim C4, amended. In every run of the service in which the clients that are called
  return, the outcome holds the success flag, the balance read before the request (a
  number, or \<^verbatim>\<open>null\<close>), on success the transaction identifier of the result that
  succeeded, and on failure the error detail of the airdrop client, the last one
  tried.
\<close>

theorem outcome_contents:
  assumes "fst (c_getBalance c TARGET_ADDRESS) = Inr b"
    and "fst (c_requestDevnetSol c TARGET_ADDRESS SOL_AMOUNT) = Inr r"
    and "success r \<or> fst (c_requestAirdrop c TARGET_ADDRESS (min SOL_AMOUNT 2)) = Inr r2"
  shows "\<exists>out. fst (requestSol h c st) = Inr out \<and>
           success out = success (if success r then r else r2) \<and>
           currentBalance out = balance_val b \<and>
           (success out \<longrightarrow> signature out = signature (if success r then r else r2)) \<and>
           (\<not> success out \<longrightarrow> error out = error r2)"
proof (cases "success r")
  case True
  with assms show ?thesis by (simp add: requestSol_faucet_ok)
next
  case False
  with assms have a: "fst (c_requestAirdrop c TARGET_ADDRESS (min SOL_AMOUNT 2)) = Inr r2"
    by simp
  show ?thesis
  proof (cases "success r2")
    case True
    with assms False a show ?thesis by (simp add: requestSol_airdrop_ok)
  next
    case r2: False
    with assms False a show ?thesis by (simp add: requestSol_both_fail)
  qed
qed

text \<open>An airdrop that is confirmed after a faucet time-out, and a run in which both are refused.\<close>

theorem outcome_contents_witness:
  "(\<exists>out. fst (requestSol example_host (clients_of example_host env_airdrop_ok) (initial_stats 0)) = Inr out \<and>
      success out \<and> currentBalance out = JNum (3 / 2) \<and> signature out = JStr ''5J7'') \<and>
   (\<exists>out. fst (requestSol example_host (clients_of example_host env_both_fail) (initial_stats 0)) = Inr out \<and>
      \<not> success out \<and> currentBalance out = JNum (3 / 2) \<and>
      error out = JStr ''airdrop limit reached'')"
  using outcome_contents [OF example_clients(1) example_clients(2)
      disjI2 [OF example_clients(3)], of example_host "initial_stats 0"]
    outcome_contents [OF example_clients(6) example_clients(7)
      disjI2 [OF example_clients(8)], of example_host "initial_stats 0"]
  by (auto simp: balance_val_def)


text \<open>
  Claim C6. When the faucet client and then the airdrop client both return a failure,
  the outcome has \<^verbatim>\<open>success: false\<close> and its \<^verbatim>\<open>error\<close> is the \<^verbatim>\<open>error\<close> of the
  airdrop client's result, the last method tried; the run counts as one failed request.
\<close>

theorem both_fail_reports_airdrop_error:
  assumes "fst (c_getBalance c TARGET_ADDRESS) = Inr b"
    and "fst (c_requestDevnetSol c TARGET_ADDRESS SOL_AMOUNT) = Inr r"
    and "\<not> success r"
    and "fst (c_requestAirdrop c TARGET_ADDRESS (min SOL_AMOUNT 2)) = Inr r2"
    and "\<not> success r2"
  shows "\<exists>out. fst (requestSol h c st) = Inr out \<and> \<not> success out \<and> error out = error r2 \<and>
           failedRequests (fst (snd (requestSol h c st))) = failedRequests st + 1 \<and>
           successfulRequests (fst (snd (requestSol h c st))) = successfulRequests st"
  using assms by (simp add: requestSol_both_fail started_def)

text \<open>The faucet refuses with status 429, then the airdrop is refused: its message is kept.\<close>

theorem both_fail_reports_airdrop_error_witness:
  "\<exists>out. fst (requestSol example_host (clients_of example_host env_both_fail) (initial_stats 0)) = Inr out \<and>
     \<not> success out \<and> error out = JStr ''airdrop limit reached''"
  using both_fail_reports_airdrop_error [OF example_clients(6) example_clients(7) _
      example_clients(8), of example_host "initial_stats 0"]
  by auto


text \<open>
  Claim C8, as stated, fails: success does not follow from a transaction identifier in
  the body of the response. axios rejects a response with an error status, and the
  \<^verbatim>\<open>catch\<close> of the faucet client makes it a failure whatever its body holds: here the
  faucet answers with status 500 and a body that holds a signature.
\<close>

theorem error_status_with_signature_counterexample:
  "axios_post env_error_status FAUCET_URL
     (JObj [(''address'', JStr TARGET_ADDRESS),
            (''amount'', JNum (js_times example_host SOL_AMOUNT LAMPORTS_PER_SOL))])
     (JObj [(''headers'', JObj [(''Content-Type'', JStr ''application/json'')]),
            (''timeout'', JNum 30000)]) =
     Inl (JsError ''Request failed with status code 500''
            (Some \<lparr>status = 500, data = JObj [(''signature'', JStr ''5J7'')]\<rparr>)) \<and>
   has_signature (JObj [(''signature'', JStr ''5J7'')]) \<and>
   fst (requestDevnetSol example_host env_error_status TARGET_ADDRESS SOL_AMOUNT ()) =
     Inr \<lparr>success = False, signature = JUndefined,
          error = JStr ''Request failed with status code 500''\<rparr>"
  by (simp add: requestDevnetSol_fst failed_with_def env_error_status_def)

text \<open>
  Claim C8, amended. For every address and amount, the faucet client makes one library
  call, a POST to the faucet whose body holds \<^verbatim>\<open>amount * LAMPORTS_PER_SOL\<close>, the product
  as JavaScript computes it, and it never raises. A rejected POST (network failure,
  time-out, or a response with an error status) gives a failure with the message of the
  error; a response with a success status and no transaction identifier gives a failure
  with \<^verbatim>\<open>No signature returned\<close>; a response with a success status and a transaction
  identifier that can be written into the log line gives success, with that signature.
\<close>

theorem faucet_client_contract:
  fixes h :: host and e :: env and a :: address and n :: rat and s :: 's
  defines "payload \<equiv> JObj [(''address'', JStr a),
                         (''amount'', JNum (js_times h n LAMPORTS_PER_SOL))]"
    and "options \<equiv> JObj [(''headers'', JObj [(''Content-Type'', JStr ''application/json'')]),
                          (''timeout'', JNum 30000)]"
  shows "lib_calls (snd (snd (requestDevnetSol h e a n s))) =
           [Axios_post FAUCET_URL payload options] \<and>
         (\<exists>r. fst (requestDevnetSol h e a n s) = Inr r) \<and>
         (\<forall>err. axios_post e FAUCET_URL payload options = Inl err \<longrightarrow>
            fst (requestDevnetSol h e a n s) =
              Inr \<lparr>success = False, signature = JUndefined,
                   error = JStr (error_message err)\<rparr>) \<and>
         (\<forall>response. axios_post e FAUCET_URL payload options = Inr response \<and>
            \<not> has_signature (data response) \<longrightarrow>
            fst (requestDevnetSol h e a n s) =
              Inr \<lparr>success = False, signature = JUndefined,
                   error = JStr ''No signature returned''\<rparr>) \<and>
         (\<forall>response. axios_post e FAUCET_URL payload options = Inr response \<and>
            has_signature (data response) \<and>
            stringifiable (js_prop (data response) ''signature'') \<longrightarrow>
            fst (requestDevnetSol h e a n s) =
              Inr \<lparr>success = True, signature = js_prop (data response) ''signature'',
                   error = JUndefined\<rparr>)"
  unfolding payload_def options_def
  by (simp add: requestDevnetSol_lib_calls requestDevnetSol_fst has_signature_test
      failed_with_def split: sum.splits)

text \<open>The faucet answers with a signature, answers without one, and times out.\<close>

theorem faucet_client_contract_witness:
  "lib_calls (snd (snd (requestDevnetSol example_host env_faucet_ok TARGET_ADDRESS
     SOL_AMOUNT ()))) =
     [Axios_post FAUCET_URL
        (JObj [(''address'', JStr TARGET_ADDRESS), (''amount'', JNum 5000000000)])
        (JObj [(''headers'', JObj [(''Content-Type'', JStr ''application/json'')]),
               (''timeout'', JNum 30000)])] \<and>
   fst (requestDevnetSol example_host env_faucet_ok TARGET_ADDRESS SOL_AMOUNT ()) =
     Inr \<lparr>success = True, signature = JStr ''5J7'', error = JUndefined\<rparr> \<and>
   fst (requestDevnetSol example_host env_no_signature TARGET_ADDRESS SOL_AMOUNT ()) =
     Inr \<lparr>success = False, signature = JUndefined, error = JStr ''No signature returned''\<rparr> \<and>
   fst (requestDevnetSol example_host env_airdrop_ok TARGET_ADDRESS SOL_AMOUNT ()) =
     Inr \<lparr>success = False, signature = JUndefined,
          error = JStr ''timeout of 30000ms exceeded''\<rparr>"
  using faucet_client_contract [where h = example_host and e = env_faucet_ok and a = TARGET_ADDRESS
        and n = SOL_AMOUNT and s = "()"]
    faucet_client_contract [where h = example_host and e = env_no_signature and a = TARGET_ADDRESS
        and n = SOL_AMOUNT and s = "()"]
    faucet_client_contract [where h = example_host and e = env_airdrop_ok and a = TARGET_ADDRESS
        and n = SOL_AMOUNT and s = "()"]
  by (simp add: env_faucet_ok_def env_no_signature_def env_airdrop_ok_def example_host_def
      SOL_AMOUNT_def LAMPORTS_PER_SOL_def)

text \<open>
  Claim C9. \<^verbatim>\<open>getBalance\<close> never raises: it returns the balance in SOL, or \<^verbatim>\<open>null\<close>
  whenever the \<^verbatim>\<open>PublicKey\<close> constructor or the RPC call raises. And when the balance
  read returns \<^verbatim>\<open>null\<close> and a funding call succeeds, the orchestrator still returns
  \<^verbatim>\<open>success: true\<close>, with \<^verbatim>\<open>currentBalance: null\<close>, and \<^verbatim>\<open>POST /request\<close> answers 200
  with the balance shown as \<^verbatim>\<open>Unknown\<close>.
\<close>

theorem balance_is_best_effort:
  "fst (getBalance e a s) =
     Inr (case newPublicKey e a of
            Inl err \<Rightarrow> None
          | Inr pk \<Rightarrow>
              (case conn_getBalance e pk of
                 Inl err \<Rightarrow> None
               | Inr n \<Rightarrow> Some (of_nat n / LAMPORTS_PER_SOL))) \<and>
   (fst (c_getBalance c TARGET_ADDRESS) = Inr None \<and> funding_succeeds c \<longrightarrow>
      (\<exists>out. fst (requestSol h c st) = Inr out \<and> success out \<and> currentBalance out = JNull) \<and>
      (\<exists>r. fst (post_request h c st) = Inr r \<and> statusCode r = 200 \<and>
         js_prop (body r) ''success'' = JBool True \<and>
         js_prop (js_prop (body r) ''data'') ''currentBalance'' = JStr ''Unknown''))"
proof (intro conjI impI)
  show "fst (getBalance e a s) =
     Inr (case newPublicKey e a of
            Inl err \<Rightarrow> None
          | Inr pk \<Rightarrow>
              (case conn_getBalance e pk of
                 Inl err \<Rightarrow> None
               | Inr n \<Rightarrow> Some (of_nat n / LAMPORTS_PER_SOL)))"
    by (rule getBalance_fst)
next
  assume h: "fst (c_getBalance c TARGET_ADDRESS) = Inr None \<and> funding_succeeds c"
  show "\<exists>out. fst (requestSol h c st) = Inr out \<and> success out \<and> currentBalance out = JNull"
    using requestSol_summary [of h c st] h by (auto simp: balance_val_def)
next
  assume h: "fst (c_getBalance c TARGET_ADDRESS) = Inr None \<and> funding_succeeds c"
  obtain out st' tr where run: "requestSol h c st = (Inr out, st', tr)"
    and ok: "success out" and bal: "currentBalance out = JNull"
    using requestSol_summary [of h c st] h by (auto simp: balance_val_def)
  have "balance_text h (currentBalance out) st' = (Inr (JStr ''Unknown''), st', [])"
    by (simp add: bal balance_text_def pure_def)
  from post_request_reply [OF run this] ok
  show "\<exists>r. fst (post_request h c st) = Inr r \<and> statusCode r = 200 \<and>
         js_prop (body r) ''success'' = JBool True \<and>
         js_prop (js_prop (body r) ''data'') ''currentBalance'' = JStr ''Unknown''"
    by simp
qed

text \<open>The RPC call for the balance fails and the faucet answers.\<close>

theorem balance_is_best_effort_witness:
  "fst (getBalance env_no_balance TARGET_ADDRESS ()) = Inr None \<and>
   fst (c_getBalance (clients_of example_host env_no_balance) TARGET_ADDRESS) = Inr None \<and>
   funding_succeeds (clients_of example_host env_no_balance) \<and>
   (\<exists>out. fst (requestSol example_host (clients_of example_host env_no_balance) (initial_stats 0)) = Inr out \<and>
      success out \<and> currentBalance out = JNull) \<and>
   (\<exists>r. fst (post_request example_host (clients_of example_host env_no_balance) (initial_stats 0)) = Inr r \<and>
      statusCode r = 200 \<and>
      js_prop (js_prop (body r) ''data'') ''currentBalance'' = JStr ''Unknown'')"
proof -
  have unreadable: "newPublicKey env_no_balance TARGET_ADDRESS = Inr TARGET_ADDRESS"
    "conn_getBalance env_no_balance TARGET_ADDRESS = Inl (JsError ''fetch failed'' None)"
    by (simp_all add: env_no_balance_def)
  show ?thesis
    using balance_is_best_effort [of env_no_balance TARGET_ADDRESS "()"
        "clients_of example_host env_no_balance" example_host "initial_stats 0"]
      example_clients(9) example_funding(1) unreadable
    by auto
qed

text \<open>
  Claim C10. When \<^verbatim>\<open>getBalance\<close> returns exactly 0, \<^verbatim>\<open>GET /\<close>, \<^verbatim>\<open>GET /balance\<close> and
  \<^verbatim>\<open>POST /request\<close> show the balance as \<^verbatim>\<open>Unknown\<close>, as they do when it returns
  \<^verbatim>\<open>null\<close>: the routes test the balance for truthiness. Only \<^verbatim>\<open>balanceSOL\<close> of
  \<^verbatim>\<open>GET /balance\<close>, which is not formatted, tells the two apart.
\<close>

theorem zero_balance_reads_unknown:
  assumes "fst (c_getBalance c TARGET_ADDRESS) = Inr b" and "b = Some 0 \<or> b = None"
  shows "(\<exists>r. fst (get_root h c st) = Inr r \<and> statusCode r = 200 \<and>
            js_prop (body r) ''currentBalance'' = JStr ''Unknown'') \<and>
         (\<exists>r. fst (get_balance h c st) = Inr r \<and> statusCode r = 200 \<and>
            js_prop (body r) ''balance'' = JStr ''Unknown'' \<and>
            js_prop (body r) ''balanceSOL'' = balance_val b) \<and>
         (\<exists>r. fst (post_request h c st) = Inr r \<and>
            js_prop (js_prop (body r) ''data'') ''currentBalance'' = JStr ''Unknown'')"
proof (intro conjI)
  show "\<exists>r. fst (get_root h c st) = Inr r \<and> statusCode r = 200 \<and>
            js_prop (body r) ''currentBalance'' = JStr ''Unknown''"
    using get_root_reply [OF assms(1), of h st] assms(2) by auto
  show "\<exists>r. fst (get_balance h c st) = Inr r \<and> statusCode r = 200 \<and>
            js_prop (body r) ''balance'' = JStr ''Unknown'' \<and>
            js_prop (body r) ''balanceSOL'' = balance_val b"
    using get_balance_reply [OF assms(1), of h st] assms(2) by auto
  show "\<exists>r. fst (post_request h c st) = Inr r \<and>
            js_prop (js_prop (body r) ''data'') ''currentBalance'' = JStr ''Unknown''"
    using post_request_balance [OF assms(1), of h st] assms(2) by auto
qed

text \<open>An empty account.\<close>

theorem zero_balance_reads_unknown_witness:
  "(\<exists>r. fst (get_root example_host (clients_of example_host env_zero_balance) (initial_stats 0)) = Inr r \<and>
      js_prop (body r) ''currentBalance'' = JStr ''Unknown'') \<and>
   (\<exists>r. fst (get_balance example_host (clients_of example_host env_zero_balance) (initial_stats 0)) = Inr r \<and>
      js_prop (body r) ''balance'' = JStr ''Unknown'' \<and>
      js_prop (body r) ''balanceSOL'' = JNum 0) \<and>
   (\<exists>r. fst (post_request example_host (clients_of example_host env_zero_balance) (initial_stats 0)) = Inr r \<and>
      js_prop (js_prop (body r) ''data'') ''currentBalance'' = JStr ''Unknown'')"
  using zero_balance_reads_unknown [OF example_clients(11), of example_host "initial_stats 0"]
  by (auto simp: balance_val_def)

end
